theory Spec2Isabelle
  imports Complex_Main "HOL-Library.AList" "HOL-Library.Char_ord" "HOL-Library.List_Lexorder"
begin

section \<open>Values, exceptions and strings\<close>

text \<open>
  The development embeds \<^verbatim>\<open>scripts/place_and_route.py\<close>. The script is read with the
  semantics of Python 3 (it decodes the bytes returned by \<^verbatim>\<open>communicate()\<close> and calls
  \<^verbatim>\<open>print\<close> as a function). Every exception the script can raise is a value of
  \<open>exn\<close>; a function that can raise returns \<open>exn + 'a\<close>, with \<open>Inl\<close> for the raise.
\<close>

datatype exn =
    SystemExit int
  | NameError string
  | TypeError string
  | KeyError string
  | IndexError string
  | ValueError string
  | AttributeError string
  | ReError string
  | OSError nat

text \<open>
  A Python float is idealised as a real number or NaN. Samples are reals (the values
  \<^verbatim>\<open>float(...)\<close> parsed); NaN appears only as a result of \<^verbatim>\<open>scipy.stats.gmean\<close>.
\<close>

datatype pyfloat = Fin real | NaN

text \<open>
  \<^verbatim>\<open>scipy.stats.gmean(a)\<close> is \<^verbatim>\<open>exp(mean(log(a)))\<close>: NaN on an empty sequence (mean of
  nothing) and on a negative sample (log is NaN), zero when a sample is zero (log is
  minus infinity) and no sample is negative.
\<close>

definition gmean :: "real list \<Rightarrow> pyfloat" where
  "gmean xs =
     (if xs = [] \<or> (\<exists>x \<in> set xs. x < 0) then NaN
      else if 0 \<in> set xs then Fin 0
      else Fin (exp (sum_list (map ln xs) / real (length xs))))"

text \<open>Decimal rendering of an integer, \<^verbatim>\<open>str(n)\<close>.\<close>

definition digit_char :: "nat \<Rightarrow> char" where
  "digit_char d = char_of (48 + d)"

function str_nat :: "nat \<Rightarrow> string" where
  "str_nat n = (if n < 10 then [digit_char n] else str_nat (n div 10) @ [digit_char (n mod 10)])"
  by pat_completeness auto
termination
  by (relation "measure (\<lambda>n. n)") auto

definition str_int :: "int \<Rightarrow> string" where
  "str_int i = (if i < 0 then CHR ''-'' # str_nat (nat (- i)) else str_nat (nat i))"

text \<open>
  \<^verbatim>\<open>s.replace(old, new)\<close>: every non-overlapping occurrence of \<open>old\<close>, found from the
  left, is replaced; with an empty \<open>old\<close> Python inserts \<open>new\<close> before every character
  and at the end.
\<close>

function str_replace :: "string \<Rightarrow> string \<Rightarrow> string \<Rightarrow> string" where
  "str_replace old new [] = (if old = [] then new else [])"
| "str_replace old new (c # s) =
     (if old = [] then new @ c # str_replace old new s
      else if take (length old) (c # s) = old
        then new @ str_replace old new (drop (length old) (c # s))
        else c # str_replace old new s)"
  by pat_completeness auto
termination
  by (relation "measure (\<lambda>(old, new, s). length s)") auto

text \<open>\<^verbatim>\<open>sep.join(xs)\<close>, \<^verbatim>\<open>s.split(sep)\<close> for a one-character separator, and
  \<^verbatim>\<open>s.lower()\<close> on ASCII letters.\<close>

fun str_join :: "string \<Rightarrow> string list \<Rightarrow> string" where
  "str_join sep [] = []"
| "str_join sep [x] = x"
| "str_join sep (x # y # ys) = x @ sep @ str_join sep (y # ys)"

fun str_split :: "char \<Rightarrow> string \<Rightarrow> string list" where
  "str_split sep [] = [[]]"
| "str_split sep (c # s) =
     (if c = sep then [] # str_split sep s
      else (case str_split sep s of
              [] \<Rightarrow> [[c]]
            | w # ws \<Rightarrow> (c # w) # ws))"

definition lower_char :: "char \<Rightarrow> char" where
  "lower_char c =
     (let n = (of_char c :: nat) in if 65 \<le> n \<and> n \<le> 90 then char_of (n + 32) else c)"

definition str_lower :: "string \<Rightarrow> string" where
  "str_lower s = map lower_char s"

section \<open>Dictionaries\<close>

text \<open>
  A Python dict is an association list in insertion order with distinct keys:
  \<^verbatim>\<open>d[k] = v\<close> is \<^const>\<open>AList.update\<close> (an existing key keeps its place), and
  \<^verbatim>\<open>d[k]\<close> raises KeyError on a missing key.
\<close>

definition getitem :: "(string \<times> 'v) list \<Rightarrow> string \<Rightarrow> exn + 'v" where
  "getitem d k = (case map_of d k of None \<Rightarrow> Inl (KeyError k) | Some v \<Rightarrow> Inr v)"

section \<open>Caller: the result accumulator\<close>

text \<open>
  An instance of \<^verbatim>\<open>PlaceCaller\<close>. \<open>circuits\<close> is set by \<^verbatim>\<open>Caller.__init__\<close>,
  \<open>metrics\<close> and \<open>stats_regex\<close> are the class attributes of the subclass,
  \<open>architecture\<close> and \<open>circuit_file\<close> (the attribute
  \<^verbatim>\<open>self.circuit\<close>) are set by \<^verbatim>\<open>PlaceCaller.__init__\<close>. The attributes
  \<open>results\<close>, \<open>seeds\<close> and \<open>command\<close> do not exist until they are first assigned
  (\<open>None\<close>); reading one before that raises AttributeError.
\<close>

type_synonym samples = "(string \<times> real list) list"
type_synonym result_table = "(string \<times> samples) list"

record caller =
  circuits :: "string list"
  metrics :: "string list"
  stats_regex :: string
  architecture :: string
  circuit_file :: string
  results :: "result_table option"
  seeds :: "int list option"
  command :: "string list option"

definition get_attr :: "string \<Rightarrow> 'a option \<Rightarrow> exn + 'a" where
  "get_attr name v = (case v of None \<Rightarrow> Inl (AttributeError name) | Some x \<Rightarrow> Inr x)"

text \<open>
  \<^verbatim>\<open>Caller.get_geomean\<close> (lines 122-127): the loop over \<^verbatim>\<open>self.circuits\<close> extends
  \<^verbatim>\<open>metric_results\<close> by \<^verbatim>\<open>self.results[circuit][metric]\<close>.
\<close>

fun pool_samples :: "caller \<Rightarrow> string \<Rightarrow> string list \<Rightarrow> real list \<Rightarrow> exn + real list" where
  "pool_samples c metric [] metric_results = Inr metric_results"
| "pool_samples c metric (x # xs) metric_results =
     (case get_attr ''results'' (results c) of
        Inl e \<Rightarrow> Inl e
      | Inr res \<Rightarrow>
          (case getitem res x of
             Inl e \<Rightarrow> Inl e
           | Inr row \<Rightarrow>
               (case getitem row metric of
                  Inl e \<Rightarrow> Inl e
                | Inr ys \<Rightarrow> pool_samples c metric xs (metric_results @ ys))))"

definition get_geomean :: "caller \<Rightarrow> string \<Rightarrow> exn + pyfloat" where
  "get_geomean c metric =
     (case pool_samples c metric (circuits c) [] of
        Inl e \<Rightarrow> Inl e
      | Inr metric_results \<Rightarrow> Inr (gmean metric_results))"

section \<open>The environment of a run\<close>

text \<open>
  What lies outside the script is a parameter of the model, so that every theorem holds
  for any external tool, regular-expression engine, number parser, random generator
  and file system:
  \<^item> \<open>popen cmd w\<close>: \<^verbatim>\<open>subprocess.Popen(cmd, ...)\<close>, \<^verbatim>\<open>communicate()\<close> and the two
    \<^verbatim>\<open>decode('utf-8')\<close>, in a world \<open>w\<close>: the decoded stdout and stderr, or the
    exception raised by one of these calls, and the world after the child ran;
  \<^item> \<open>re_compile pat\<close>: \<^verbatim>\<open>re.compile(pat, re.DOTALL)\<close>; \<open>None\<close> is \<^verbatim>\<open>re.error\<close>, otherwise
    the \<^verbatim>\<open>search\<close> method of the compiled pattern, which returns \<open>None\<close> or a match
    object (a function from group names to groups);
  \<^item> \<open>py_float s\<close>: \<^verbatim>\<open>float(s)\<close>, \<open>None\<close> for ValueError;
  \<^item> \<open>random_seed\<close> and \<open>randrange\<close>: the generator of the \<^verbatim>\<open>random\<close> module, a
    deterministic function of its hidden state;
  \<^item> \<open>os_remove\<close> and \<open>rmtree\<close>: \<^verbatim>\<open>os.remove\<close> and \<^verbatim>\<open>shutil.rmtree\<close>, returning
    the errno of the OSError they raise, if any.
\<close>

datatype group = NoSuchGroup | Unmatched | Captured string

type_synonym match = "string \<Rightarrow> group"

record ('w, 'g) env =
  popen :: "string list \<Rightarrow> 'w \<Rightarrow> (exn + string \<times> string) \<times> 'w"
  re_compile :: "string \<Rightarrow> (string \<Rightarrow> match option) option"
  py_float :: "string \<Rightarrow> real option"
  random_seed :: "int \<Rightarrow> 'g"
  randrange :: "int \<Rightarrow> 'g \<Rightarrow> int \<times> 'g"
  os_remove :: "string \<Rightarrow> 'w \<Rightarrow> nat option \<times> 'w"
  rmtree :: "string \<Rightarrow> 'w \<Rightarrow> nat option \<times> 'w"

text \<open>
  The state of the running process outside the objects: the world, the state of the
  \<^verbatim>\<open>random\<close> module, the lines printed so far (one entry for each call of
  \<^verbatim>\<open>print\<close>) and the commands handed to \<^verbatim>\<open>Popen\<close> so far.
\<close>

record ('w, 'g) process =
  world :: 'w
  rng :: 'g
  printed :: "string list"
  spawned :: "string list list"

definition print :: "string \<Rightarrow> ('w, 'g) process \<Rightarrow> ('w, 'g) process" where
  "print s p = p\<lparr>printed := printed p @ [s]\<rparr>"

definition ENOENT :: nat where
  "ENOENT = 2"

text \<open>\<^verbatim>\<open>silentremove\<close> (lines 18-23).\<close>

definition silentremove ::
  "('w, 'g) env \<Rightarrow> string \<Rightarrow> ('w, 'g) process \<Rightarrow> exn option \<times> ('w, 'g) process" where
  "silentremove env filename p =
     (case os_remove env filename (world p) of
        (None, w) \<Rightarrow> (None, p\<lparr>world := w\<rparr>)
      | (Some e, w) \<Rightarrow>
          if e \<noteq> ENOENT then (Some (OSError e), p\<lparr>world := w\<rparr>)
          else (None, p\<lparr>world := w\<rparr>))"

section \<open>Caller.call\_circuit\<close>

text \<open>
  The substitution applied to one token (line 35):
  \<^verbatim>\<open>tok.replace('{circuit}', circuit).replace('{seed}', str(seed))\<close>.
\<close>

definition substitute :: "string \<Rightarrow> int \<Rightarrow> string \<Rightarrow> string" where
  "substitute circuit seed tok =
     str_replace ''{seed}'' (str_int seed) (str_replace ''{circuit}'' circuit tok)"

text \<open>
  \<^verbatim>\<open>call_circuit\<close> (lines 32-41) with the store written out. A list object lives at an
  address of the heap (its index); strings are immutable values. \<^verbatim>\<open>copy.deepcopy\<close>
  allocates a new list with the same tokens, and the loop assigns to the elements of
  that new list.
\<close>

type_synonym heap = "string list list"

definition deepcopy :: "heap \<Rightarrow> nat \<Rightarrow> heap \<times> nat" where
  "deepcopy h a = (h @ [h ! a], length h)"

fun substitute_loop :: "heap \<Rightarrow> nat \<Rightarrow> string \<Rightarrow> int \<Rightarrow> nat list \<Rightarrow> heap" where
  "substitute_loop h a circuit seed [] = h"
| "substitute_loop h a circuit seed (i # is) =
     substitute_loop (h[a := (h ! a)[i := substitute circuit seed (h ! a ! i)]]) a circuit seed is"

definition call_circuit ::
  "('w, 'g) env \<Rightarrow> heap \<Rightarrow> nat \<Rightarrow> string \<Rightarrow> int \<Rightarrow> ('w, 'g) process
     \<Rightarrow> (exn + string \<times> string) \<times> heap \<times> ('w, 'g) process" where
  "call_circuit env h cmd circuit seed p =
     (let (h1, circuit_command) = deepcopy h cmd;
          h2 = substitute_loop h1 circuit_command circuit seed
                 [0 ..< length (h1 ! circuit_command)];
          (r, w) = popen env (h2 ! circuit_command) (world p)
      in (r, h2, p\<lparr>world := w, spawned := spawned p @ [h2 ! circuit_command]\<rparr>))"

text \<open>
  The same function on values: the command is a list of tokens, not an address. The
  loops below use it; \<open>call_circuit_value\<close> is shown to agree with \<open>call_circuit\<close>.
\<close>

definition call_circuit_value ::
  "('w, 'g) env \<Rightarrow> string list \<Rightarrow> string \<Rightarrow> int \<Rightarrow> ('w, 'g) process
     \<Rightarrow> (exn + string \<times> string) \<times> ('w, 'g) process" where
  "call_circuit_value env cmd circuit seed p =
     (let circuit_command = map (substitute circuit seed) cmd;
          (r, w) = popen env circuit_command (world p)
      in (r, p\<lparr>world := w, spawned := spawned p @ [circuit_command]\<rparr>))"

section \<open>Caller.call\_all\_circuits\<close>

text \<open>Lines 46-50: the empty result table, one row for each circuit.\<close>

fun init_metrics :: "string list \<Rightarrow> samples \<Rightarrow> samples" where
  "init_metrics [] row = row"
| "init_metrics (metric # ms) row = init_metrics ms (AList.update metric [] row)"

fun init_results :: "string list \<Rightarrow> string list \<Rightarrow> result_table \<Rightarrow> result_table" where
  "init_results [] ms res = res"
| "init_results (x # xs) ms res = init_results xs ms (AList.update x (init_metrics ms []) res)"

text \<open>Line 53: \<^verbatim>\<open>[random.randrange(2**31 - 1) for i in range(num_random_seeds)]\<close>.\<close>

fun gen_seeds :: "('w, 'g) env \<Rightarrow> nat \<Rightarrow> 'g \<Rightarrow> int list \<times> 'g" where
  "gen_seeds env 0 g = ([], g)"
| "gen_seeds env (Suc n) g =
     (let (x, g1) = randrange env (2 ^ 31 - 1) g;
          (xs, g2) = gen_seeds env n g1
      in (x # xs, g2))"

text \<open>
  Line 81: \<^verbatim>\<open>float(match.group(group_name))\<close>. \<^verbatim>\<open>group\<close> raises IndexError for a name
  the pattern does not define and returns \<^verbatim>\<open>None\<close> for a group that took no part in the
  match, on which \<^verbatim>\<open>float\<close> raises TypeError.
\<close>

definition group_float :: "('w, 'g) env \<Rightarrow> match \<Rightarrow> string \<Rightarrow> exn + real" where
  "group_float env m group_name =
     (case m group_name of
        NoSuchGroup \<Rightarrow> Inl (IndexError ''no such group'')
      | Unmatched \<Rightarrow> Inl (TypeError ''float() argument must be a string or a number'')
      | Captured s \<Rightarrow>
          (case py_float env s of None \<Rightarrow> Inl (ValueError s) | Some v \<Rightarrow> Inr v))"

text \<open>
  Lines 79-81, the loop over \<^verbatim>\<open>self.metrics\<close>. The list
  \<^verbatim>\<open>self.results[circuit][metric]\<close> is looked up before the argument of \<^verbatim>\<open>append\<close> is
  evaluated. An exception leaves the samples appended so far in place.
\<close>

fun record_metrics ::
  "('w, 'g) env \<Rightarrow> match \<Rightarrow> string \<Rightarrow> string list \<Rightarrow> caller \<Rightarrow> exn option \<times> caller" where
  "record_metrics env m x [] c = (None, c)"
| "record_metrics env m x (metric # ms) c =
     (let group_name = str_replace '' '' ''_'' (str_lower metric) in
      case get_attr ''results'' (results c) of
        Inl e \<Rightarrow> (Some e, c)
      | Inr res \<Rightarrow>
          (case getitem res x of
             Inl e \<Rightarrow> (Some e, c)
           | Inr row \<Rightarrow>
               (case getitem row metric of
                  Inl e \<Rightarrow> (Some e, c)
                | Inr ys \<Rightarrow>
                    (case group_float env m group_name of
                       Inl e \<Rightarrow> (Some e, c)
                     | Inr v \<Rightarrow>
                         record_metrics env m x ms
                           (c\<lparr>results :=
                                Some (AList.update x (AList.update metric (ys @ [v]) row) res)\<rparr>)))))"

definition problem_message :: "string \<Rightarrow> string" where
  "problem_message x = ''There was a problem with circuit '' @ [CHR 0x22] @ x @ [CHR 0x22]"

definition no_match_message :: "string \<Rightarrow> string" where
  "no_match_message pat = ''Failed to match pattern: '' @ pat"

text \<open>
  Lines 62-81, the loop over \<^verbatim>\<open>self.circuits\<close>. \<^verbatim>\<open>sys.exit(1)\<close> raises
  \<open>SystemExit 1\<close>; nothing in the script catches it.
\<close>

fun call_circuits ::
  "('w, 'g) env \<Rightarrow> (string \<Rightarrow> match option) \<Rightarrow> string list \<Rightarrow> int \<Rightarrow> string list
     \<Rightarrow> caller \<Rightarrow> ('w, 'g) process \<Rightarrow> exn option \<times> caller \<times> ('w, 'g) process" where
  "call_circuits env search cmd seed [] c p = (None, c, p)"
| "call_circuits env search cmd seed (x # xs) c p =
     (case call_circuit_value env cmd x seed (print (''  '' @ x) p) of
        (Inl e, p1) \<Rightarrow> (Some e, c, p1)
      | (Inr (out, err), p1) \<Rightarrow>
          if err \<noteq> [] then
            (Some (SystemExit 1), c, print (problem_message x) (print err p1))
          else
            (case search out of
               None \<Rightarrow>
                 (Some (SystemExit 1), c,
                  print (no_match_message (stats_regex c)) (print out p1))
             | Some m \<Rightarrow>
                 (case record_metrics env m x (metrics c) c of
                    (Some e, c1) \<Rightarrow> (Some e, c1, p1)
                  | (None, c1) \<Rightarrow> call_circuits env search cmd seed xs c1 p1)))"

text \<open>\<^verbatim>\<open>call_all_circuits_with_seed\<close> (lines 58-81).\<close>

definition call_all_circuits_with_seed ::
  "('w, 'g) env \<Rightarrow> string list \<Rightarrow> int \<Rightarrow> caller \<Rightarrow> ('w, 'g) process
     \<Rightarrow> exn option \<times> caller \<times> ('w, 'g) process" where
  "call_all_circuits_with_seed env cmd seed c p =
     (case re_compile env (stats_regex c) of
        None \<Rightarrow> (Some (ReError (stats_regex c)), c, p)
      | Some search \<Rightarrow>
          call_circuits env search cmd seed (circuits c) (c\<lparr>command := Some cmd\<rparr>) p)"

text \<open>Lines 54-55, the loop over \<^verbatim>\<open>self.seeds\<close>.\<close>

fun call_seeds ::
  "('w, 'g) env \<Rightarrow> string list \<Rightarrow> int list \<Rightarrow> caller \<Rightarrow> ('w, 'g) process
     \<Rightarrow> exn option \<times> caller \<times> ('w, 'g) process" where
  "call_seeds env cmd [] c p = (None, c, p)"
| "call_seeds env cmd (seed # ss) c p =
     (case call_all_circuits_with_seed env cmd seed c p of
        (Some e, c1, p1) \<Rightarrow> (Some e, c1, p1)
      | (None, c1, p1) \<Rightarrow> call_seeds env cmd ss c1 p1)"

text \<open>
  \<^verbatim>\<open>call_all_circuits\<close> (lines 44-55). Lines 46-53 build the empty result table and
  the seeds (\<^verbatim>\<open>range(n)\<close> is empty for a negative \<open>n\<close>); \<open>init_run\<close> returns the seeds
  with the accumulator and the process as they are when the loop of line 54 starts.
\<close>

definition init_run ::
  "('w, 'g) env \<Rightarrow> int \<Rightarrow> caller \<Rightarrow> ('w, 'g) process
     \<Rightarrow> int list \<times> caller \<times> ('w, 'g) process" where
  "init_run env num_random_seeds c p =
     (let c1 = c\<lparr>results := Some (init_results (circuits c) (metrics c) [])\<rparr>;
          (sds, g) = gen_seeds env (nat num_random_seeds) (random_seed env 1)
      in (sds, c1\<lparr>seeds := Some sds\<rparr>, p\<lparr>rng := g\<rparr>))"

definition call_all_circuits ::
  "('w, 'g) env \<Rightarrow> string list \<Rightarrow> int \<Rightarrow> caller \<Rightarrow> ('w, 'g) process
     \<Rightarrow> exn option \<times> caller \<times> ('w, 'g) process" where
  "call_all_circuits env cmd num_random_seeds c p =
     (case init_run env num_random_seeds c p of
        (sds, c0, p0) \<Rightarrow> call_seeds env cmd sds c0 p0)"

section \<open>Caller: the report of one configuration\<close>

text \<open>A cell of a report row is a string or a float; a row is a list of cells.\<close>

datatype cell = Txt string | Num pyfloat

type_synonym row = "cell list"

definition get_command :: "caller \<Rightarrow> exn + string" where
  "get_command c =
     (case get_attr ''command'' (command c) of
        Inl e \<Rightarrow> Inl e
      | Inr cmd \<Rightarrow> Inr (str_join '' '' cmd))"

text \<open>
  Line 112 calls the global name \<^verbatim>\<open>geomean\<close>. The module neither defines nor imports
  that name (it imports \<^verbatim>\<open>stats\<close> from scipy, and \<^verbatim>\<open>get_geomean\<close> calls
  \<^verbatim>\<open>stats.gmean\<close>), so the binding of \<^verbatim>\<open>geomean\<close> in the module's namespace at the time
  of the call is a parameter of \<open>get_results\<close>: \<open>None\<close> when the name is unbound, which
  is the module as it is written.
\<close>

definition module_geomean :: "(real list \<Rightarrow> pyfloat) option" where
  "module_geomean = None"

definition lookup_geomean :: "(real list \<Rightarrow> pyfloat) option \<Rightarrow> exn + (real list \<Rightarrow> pyfloat)" where
  "lookup_geomean g = (case g of None \<Rightarrow> Inl (NameError ''geomean'') | Some f \<Rightarrow> Inr f)"

text \<open>
  Lines 111-112, the loop over \<^verbatim>\<open>self.metrics\<close> that fills one row. The name
  \<^verbatim>\<open>geomean\<close> is looked up before its argument is evaluated.
\<close>

fun result_row ::
  "(real list \<Rightarrow> pyfloat) option \<Rightarrow> caller \<Rightarrow> string \<Rightarrow> string list \<Rightarrow> row \<Rightarrow> exn + row" where
  "result_row g c x [] r = Inr r"
| "result_row g c x (metric # ms) r =
     (case lookup_geomean g of
        Inl e \<Rightarrow> Inl e
      | Inr f \<Rightarrow>
          (case get_attr ''results'' (results c) of
             Inl e \<Rightarrow> Inl e
           | Inr res \<Rightarrow>
               (case getitem res x of
                  Inl e \<Rightarrow> Inl e
                | Inr samples \<Rightarrow>
                    (case getitem samples metric of
                       Inl e \<Rightarrow> Inl e
                     | Inr ys \<Rightarrow> result_row g c x ms (r @ [Num (f ys)])))))"

text \<open>Lines 109-114, the loop over \<^verbatim>\<open>sorted(self.results)\<close>.\<close>

fun result_rows ::
  "(real list \<Rightarrow> pyfloat) option \<Rightarrow> caller \<Rightarrow> string list \<Rightarrow> row list \<Rightarrow> exn + row list" where
  "result_rows g c [] rows = Inr rows"
| "result_rows g c (x # xs) rows =
     (case result_row g c x (metrics c) [Txt x] of
        Inl e \<Rightarrow> Inl e
      | Inr r \<Rightarrow> result_rows g c xs (rows @ [r]))"

text \<open>
  \<^verbatim>\<open>get_results\<close> (lines 105-116). Sorting a dict sorts its keys; Python compares
  strings lexicographically by code point, which is the order of \<open>string\<close> here.
\<close>

definition get_results :: "(real list \<Rightarrow> pyfloat) option \<Rightarrow> caller \<Rightarrow> exn + row list" where
  "get_results g c =
     (case get_command c of
        Inl e \<Rightarrow> Inl e
      | Inr cmd \<Rightarrow>
          (case get_attr ''results'' (results c) of
             Inl e \<Rightarrow> Inl e
           | Inr res \<Rightarrow>
               result_rows g c (sort (map fst res))
                 [[Txt ''benchmark''] @ map Txt (metrics c) @ [Txt cmd]]))"

text \<open>\<^verbatim>\<open>get_geomeans\<close> (lines 119-120).\<close>

fun get_geomeans_loop :: "caller \<Rightarrow> string list \<Rightarrow> exn + pyfloat list" where
  "get_geomeans_loop c [] = Inr []"
| "get_geomeans_loop c (metric # ms) =
     (case get_geomean c metric of
        Inl e \<Rightarrow> Inl e
      | Inr v \<Rightarrow>
          (case get_geomeans_loop c ms of
             Inl e \<Rightarrow> Inl e
           | Inr vs \<Rightarrow> Inr (v # vs)))"

definition get_geomeans :: "caller \<Rightarrow> exn + pyfloat list" where
  "get_geomeans c = get_geomeans_loop c (metrics c)"

text \<open>
  \<^verbatim>\<open>Caller.save_results\<close> (lines 84-92): the value is the list of rows handed to
  \<^verbatim>\<open>csv_writer.writerows\<close>; the file is opened only after the rows are built.
\<close>

definition caller_save_results ::
  "(real list \<Rightarrow> pyfloat) option \<Rightarrow> caller \<Rightarrow> exn + row list" where
  "caller_save_results g c =
     (case get_results g c of
        Inl e \<Rightarrow> Inl e
      | Inr rows \<Rightarrow>
          (case get_geomeans c of
             Inl e \<Rightarrow> Inl e
           | Inr vs \<Rightarrow> Inr (rows @ [[]] @ [[Txt ''geomeans''] @ map Num vs])))"

section \<open>PlaceCaller\<close>

definition place_metrics :: "string list" where
  "place_metrics = [''runtime'', ''BB cost'', ''max delay'']"

definition place_stats_regex :: string where
  "place_stats_regex =
     ''.*time'' @ [CHR 0x5C] @ ''s+'' @ [CHR 0x5C] @ ''|'' @ [CHR 0x5C]
       @ ''s+(?P<runtime>[0-9.e+-]+).*BB cost'' @ [CHR 0x5C] @ ''s+'' @ [CHR 0x5C] @ ''|''
       @ [CHR 0x5C] @ ''s+(?P<bb_cost>[0-9.e+-]+).*max delay'' @ [CHR 0x5C] @ ''s+''
       @ [CHR 0x5C] @ ''|'' @ [CHR 0x5C] @ ''s+(?P<max_delay>[0-9.e+-]+)''"

text \<open>
  \<^verbatim>\<open>os.path.join(a, b)\<close> for a relative \<open>b\<close>: a separator is inserted unless \<open>a\<close> is
  empty or ends with one.
\<close>

definition path_join :: "string \<Rightarrow> string \<Rightarrow> string" where
  "path_join a b =
     (if b \<noteq> [] \<and> hd b = CHR ''/'' then b
      else if a = [] \<or> last a = CHR ''/'' then a @ b
      else a @ ''/'' @ b)"

text \<open>\<^verbatim>\<open>PlaceCaller.__init__\<close> (lines 136-140) after \<^verbatim>\<open>Caller.__init__\<close> (line 29).\<close>

definition PlaceCaller :: "string \<Rightarrow> string \<Rightarrow> string \<Rightarrow> caller" where
  "PlaceCaller arch circuits_folder circuit_names =
     \<lparr> circuits = str_split CHR '' '' circuit_names,
       metrics = place_metrics,
       stats_regex = place_stats_regex,
       architecture = arch,
       circuit_file = path_join circuits_folder ''{circuit}.blif'',
       results = None, seeds = None, command = None \<rparr>"

definition build_command :: "string \<Rightarrow> string \<Rightarrow> string list \<Rightarrow> string list" where
  "build_command arch circuit options =
     [''java'', ''-cp'', ''bin'', ''interfaces.CLI'', arch, circuit,
      ''--output_place_file'', ''tmp/{circuit}.place'', ''--random_seed'', ''{seed}'']
     @ options"

text \<open>\<^verbatim>\<open>place_all\<close> (lines 143-148).\<close>

definition place_all ::
  "('w, 'g) env \<Rightarrow> string list \<Rightarrow> int \<Rightarrow> caller \<Rightarrow> ('w, 'g) process
     \<Rightarrow> exn option \<times> caller \<times> ('w, 'g) process" where
  "place_all env options num_random_seeds c p =
     (let cmd = build_command (architecture c) (circuit_file c) options in
      case call_all_circuits env cmd num_random_seeds c p of
        (Some e, c1, p1) \<Rightarrow> (Some e, c1, p1)
      | (None, c1, p1) \<Rightarrow>
          (case rmtree env ''tmp'' (world p1) of
             (Some e, w) \<Rightarrow> (Some (OSError e), c1, p1\<lparr>world := w\<rparr>)
           | (None, w) \<Rightarrow> (None, c1, p1\<lparr>world := w\<rparr>)))"

section \<open>ParameterSweeper\<close>

record sweeper =
  sw_architecture :: string
  sw_circuits_folder :: string
  sw_circuits :: string
  option_sets :: "string list list option"
  callers :: "caller list option"

text \<open>The values of an option range: integers and strings, with \<^verbatim>\<open>str\<close>.\<close>

datatype pyval = PyInt int | PyStr string

fun str_val :: "pyval \<Rightarrow> string" where
  "str_val (PyInt i) = str_int i"
| "str_val (PyStr s) = s"

text \<open>
  In Python 3 \<^verbatim>\<open>option_ranges.keys()\<close> is a view of the keys: \<^verbatim>\<open>len\<close> applies to it,
  subscripting does not, so \<^verbatim>\<open>option_names[i]\<close> (line 222) raises TypeError for every
  \<open>i\<close>.
\<close>

definition keys_getitem :: "string list \<Rightarrow> nat \<Rightarrow> exn + string" where
  "keys_getitem option_names i = Inl (TypeError ''dict_keys object is not subscriptable'')"

definition list_getitem :: "'a list \<Rightarrow> nat \<Rightarrow> exn + 'a" where
  "list_getitem xs i =
     (if i < length xs then Inr (xs ! i) else Inl (IndexError ''index out of range''))"

text \<open>
  Lines 221-222, the loop over \<^verbatim>\<open>range(len(option_names))\<close>; in the list display
  \<^verbatim>\<open>option_names[i]\<close> is evaluated before \<^verbatim>\<open>str(option_value[i])\<close>.
\<close>

fun build_option_set ::
  "string list \<Rightarrow> pyval list \<Rightarrow> nat list \<Rightarrow> string list \<Rightarrow> exn + string list" where
  "build_option_set option_names option_value [] option_set = Inr option_set"
| "build_option_set option_names option_value (i # is) option_set =
     (case keys_getitem option_names i of
        Inl e \<Rightarrow> Inl e
      | Inr name \<Rightarrow>
          (case list_getitem option_value i of
             Inl e \<Rightarrow> Inl e
           | Inr v \<Rightarrow>
               build_option_set option_names option_value is (option_set @ [name, str_val v])))"

text \<open>
  Lines 219-224, the loop over the product; an exception leaves the option sets
  appended so far in \<^verbatim>\<open>self.option_sets\<close>.
\<close>

fun build_option_sets_loop ::
  "string list \<Rightarrow> pyval list list \<Rightarrow> string list list \<Rightarrow> exn option \<times> string list list" where
  "build_option_sets_loop option_names [] sets = (None, sets)"
| "build_option_sets_loop option_names (option_value # vs) sets =
     (case build_option_set option_names option_value [0 ..< length option_names] [] of
        Inl e \<Rightarrow> (Some e, sets)
      | Inr option_set \<Rightarrow> build_option_sets_loop option_names vs (sets @ [option_set]))"

text \<open>
  \<^verbatim>\<open>build_option_sets\<close> (lines 212-224). The mapping is a dict in insertion order;
  \<^verbatim>\<open>itertools.product\<close> of the ranges is \<^const>\<open>product_lists\<close>, whose last
  component varies fastest.
\<close>

definition build_option_sets ::
  "(string \<times> pyval list) list \<Rightarrow> sweeper \<Rightarrow> exn option \<times> sweeper" where
  "build_option_sets option_ranges sw =
     (let option_names = map fst option_ranges;
          option_values = product_lists (map snd option_ranges)
      in case build_option_sets_loop option_names option_values [] of
           (e, sets) \<Rightarrow> (e, sw\<lparr>option_sets := Some sets\<rparr>))"

text \<open>Lines 174-178, the loop of \<^verbatim>\<open>sweep\<close> over \<^verbatim>\<open>self.option_sets\<close>.\<close>

fun sweep_loop ::
  "('w, 'g) env \<Rightarrow> string list \<Rightarrow> int \<Rightarrow> string list list \<Rightarrow> sweeper \<Rightarrow> caller list
     \<Rightarrow> ('w, 'g) process \<Rightarrow> exn option \<times> caller list \<times> ('w, 'g) process" where
  "sweep_loop env fixed_options n [] sw cs p = (None, cs, p)"
| "sweep_loop env fixed_options n (option_set # rest) sw cs p =
     (let options = fixed_options @ option_set;
          c = PlaceCaller (sw_architecture sw) (sw_circuits_folder sw) (sw_circuits sw)
      in case place_all env options n c p of
           (Some e, c1, p1) \<Rightarrow> (Some e, cs, p1)
         | (None, c1, p1) \<Rightarrow> sweep_loop env fixed_options n rest sw (cs @ [c1]) p1)"


text \<open>Lines 203-207, the loop of \<^verbatim>\<open>get_pareto_table\<close> over \<^verbatim>\<open>range(len(self.callers))\<close>.\<close>

fun pareto_rows :: "caller list \<Rightarrow> string \<Rightarrow> nat list \<Rightarrow> row list \<Rightarrow> exn + row list" where
  "pareto_rows cs metric [] rows = Inr rows"
| "pareto_rows cs metric (i # is) rows =
     (case list_getitem cs i of
        Inl e \<Rightarrow> Inl e
      | Inr c \<Rightarrow>
          (case get_geomean c ''runtime'' of
             Inl e \<Rightarrow> Inl e
           | Inr t \<Rightarrow>
               (case get_geomean c metric of
                  Inl e \<Rightarrow> Inl e
                | Inr q \<Rightarrow>
                    pareto_rows cs metric is
                      (rows @ [([Num t] @ replicate i (Txt [])) @ [Num q]]))))"

text \<open>\<^verbatim>\<open>get_pareto_table\<close> (lines 201-209).\<close>

definition get_pareto_table :: "sweeper \<Rightarrow> string \<Rightarrow> exn + row list" where
  "get_pareto_table sw metric =
     (case get_attr ''option_sets'' (option_sets sw) of
        Inl e \<Rightarrow> Inl e
      | Inr sets \<Rightarrow>
          (case get_attr ''callers'' (callers sw) of
             Inl e \<Rightarrow> Inl e
           | Inr cs \<Rightarrow>
               pareto_rows cs metric [0 ..< length cs]
                 [[Txt metric] @ map (\<lambda>option_set. Txt (str_join '' '' option_set)) sets]))"



section \<open>Notions used to state the properties\<close>

text \<open>
  An accumulator is populated when its result table has an entry for each of its
  circuits, holding a sample list for each of its metrics.
\<close>

definition populated :: "caller \<Rightarrow> bool" where
  "populated c =
     (case results c of
        None \<Rightarrow> False
      | Some res \<Rightarrow>
          list_all (\<lambda>x. case map_of res x of
                          None \<Rightarrow> False
                        | Some row \<Rightarrow> list_all (\<lambda>m. map_of row m \<noteq> None) (metrics c))
                   (circuits c))"

text \<open>
  The seed sequence of a run with \<open>n\<close> seeds: what the generator yields after
  \<^verbatim>\<open>random.seed(1)\<close>. It depends on the generator and on \<open>n\<close> only.
\<close>

definition seed_sequence :: "('w, 'g) env \<Rightarrow> int \<Rightarrow> int list" where
  "seed_sequence env n = fst (gen_seeds env (nat n) (random_seed env 1))"

text \<open>The sample list stored for a circuit and a metric (empty when there is none).\<close>

definition samples_of :: "caller \<Rightarrow> string \<Rightarrow> string \<Rightarrow> real list" where
  "samples_of c x m =
     (case results c of
        None \<Rightarrow> []
      | Some res \<Rightarrow>
          (case map_of res x of
             None \<Rightarrow> []
           | Some row \<Rightarrow> (case map_of row m of None \<Rightarrow> [] | Some ys \<Rightarrow> ys)))"

text \<open>
  The quantity the pooled geomean is contrasted with: the arithmetic mean of the
  geometric means taken circuit by circuit.
\<close>

definition mean_of_geomeans :: "caller \<Rightarrow> string \<Rightarrow> pyfloat" where
  "mean_of_geomeans c m =
     (let gs = map (\<lambda>x. gmean (samples_of c x m)) (circuits c)
      in if gs = [] \<or> NaN \<in> set gs then NaN
         else Fin (sum_list (map (\<lambda>g. case g of Fin r \<Rightarrow> r | NaN \<Rightarrow> 0) gs) / real (length gs)))"

text \<open>A two-circuit accumulator after one seed: circuit a measured 1, circuit b measured 4.\<close>

definition two_circuits :: caller where
  "two_circuits =
     \<lparr> circuits = [''a'', ''b''], metrics = [''runtime''], stats_regex = ''x'',
       architecture = ''arch'', circuit_file = ''c/{circuit}.blif'',
       results = Some [(''a'', [(''runtime'', [1])]), (''b'', [(''runtime'', [4])])],
       seeds = Some [7], command = Some [''run''] \<rparr>"

section \<open>A concrete environment for the examples\<close>

text \<open>
  The examples run in a small environment. The world is the list of the paths that
  exist. The tool writes to stderr when it is run on the circuit \<open>fail\<close>, prints text
  without statistics on the circuit \<open>odd\<close>, and prints statistics otherwise; it
  creates the directory \<open>tmp\<close>. The pattern matches the text with statistics only and
  captures the three groups of \<open>PlaceCaller\<close>. The generator counts upwards.
\<close>

definition example_popen :: "string list \<Rightarrow> string list \<Rightarrow> (exn + string \<times> string) \<times> string list" where
  "example_popen cmd w =
     (if ''fail'' \<in> set cmd \<or> ''c/fail.blif'' \<in> set cmd then Inr ([], ''boom'')
      else if ''odd'' \<in> set cmd \<or> ''c/odd.blif'' \<in> set cmd then Inr (''no statistics'', [])
      else Inr (''statistics'', []),
      List.insert ''tmp'' w)"

definition example_match :: match where
  "example_match name =
     (if name = ''runtime'' then Captured ''2.0''
      else if name = ''bb_cost'' then Captured ''3.0''
      else if name = ''max_delay'' then Captured ''5.0''
      else NoSuchGroup)"

definition example_search :: "string \<Rightarrow> match option" where
  "example_search out = (if out = ''statistics'' then Some example_match else None)"

definition example_float :: "string \<Rightarrow> real option" where
  "example_float s =
     (if s = ''2.0'' then Some 2 else if s = ''3.0'' then Some 3
      else if s = ''5.0'' then Some 5 else None)"

definition example_remove :: "string \<Rightarrow> string list \<Rightarrow> nat option \<times> string list" where
  "example_remove path w =
     (if path = ''locked'' then (Some 13, w)
      else if path \<in> set w then (None, removeAll path w)
      else (Some ENOENT, w))"

definition example_env :: "(string list, int) env" where
  "example_env =
     \<lparr> popen = example_popen,
       re_compile = (\<lambda>pat. Some example_search),
       py_float = example_float,
       random_seed = (\<lambda>a. a),
       randrange = (\<lambda>n g. ((7 * g) mod n, g + 1)),
       os_remove = example_remove,
       rmtree = example_remove \<rparr>"

definition example_process :: "(string list, int) process" where
  "example_process = \<lparr> world = [], rng = 0, printed = [], spawned = [] \<rparr>"

definition example_sweeper :: sweeper where
  "example_sweeper =
     \<lparr> sw_architecture = ''arch'', sw_circuits_folder = ''c'', sw_circuits = ''a'',
       option_sets = None, callers = None \<rparr>"

text \<open>Two accumulators for the examples: the second circuit fails, or prints no statistics.\<close>

definition example_caller :: "string \<Rightarrow> caller" where
  "example_caller second =
     \<lparr> circuits = [''a'', second, ''b''], metrics = [''runtime''], stats_regex = ''pattern'',
       architecture = ''arch'', circuit_file = ''c/{circuit}.blif'',
       results = None, seeds = None, command = None \<rparr>"

text \<open>All the samples of a metric, circuit after circuit in the order of \<open>self.circuits\<close>.\<close>

definition pooled_samples :: "caller \<Rightarrow> string \<Rightarrow> real list" where
  "pooled_samples c m = concat (map (\<lambda>x. samples_of c x m) (circuits c))"

text \<open>
  The pareto table as the specification describes it: the header names the metric and
  renders each option set; data row \<open>i\<close> holds the runtime geomean of configuration \<open>i\<close>,
  then \<open>i\<close> blank cells, then the geomean of the metric.
\<close>

definition pareto_row :: "caller \<Rightarrow> string \<Rightarrow> nat \<Rightarrow> row" where
  "pareto_row c m i =
     [Num (gmean (pooled_samples c ''runtime''))] @ replicate i (Txt []) @
     [Num (gmean (pooled_samples c m))]"

definition pareto_table :: "string list list \<Rightarrow> caller list \<Rightarrow> string \<Rightarrow> row list" where
  "pareto_table sets cs m =
     (Txt m # map (\<lambda>option_set. Txt (str_join '' '' option_set)) sets)
     # map (\<lambda>i. pareto_row (cs ! i) m i) [0 ..< length cs]"


text \<open>
  A finished accumulator: the command is set and every row of the result table holds a
  sample list for each metric.
\<close>

definition finished :: "caller \<Rightarrow> bool" where
  "finished c =
     (case (command c, results c) of
        (Some cmd, Some res) \<Rightarrow>
          list_all (\<lambda>entry. list_all (\<lambda>m. map_of (snd entry) m \<noteq> None) (metrics c)) res
      | _ \<Rightarrow> False)"


text \<open>
  The accumulator that \<open>place_all\<close> leaves in the example environment for the circuit
  \<open>a\<close>, one seed and the options \<open>opts\<close>, and the sweeper after a sweep with no variable
  option.
\<close>

definition example_placed :: "string list \<Rightarrow> caller" where
  "example_placed opts =
     \<lparr> circuits = [''a''], metrics = place_metrics, stats_regex = place_stats_regex,
       architecture = ''arch'', circuit_file = ''c/{circuit}.blif'',
       results = Some [(''a'', [(''runtime'', [2]), (''BB cost'', [3]), (''max delay'', [5])])],
       seeds = Some [7],
       command = Some (build_command ''arch'' ''c/{circuit}.blif'' opts) \<rparr>"



text \<open>
  An environment whose tool writes text without statistics to stdout and an error to
  stderr, whatever the command.
\<close>

definition noisy_env :: "(string list, int) env" where
  "noisy_env = example_env\<lparr>popen := (\<lambda>cmd w. (Inr (''no statistics'', ''boom''), w))\<rparr>"







section \<open>The pooled geometric mean\<close>

lemma pool_samples_concat:
  assumes "results c = Some res"
    and "\<forall>x \<in> set xs. \<exists>row ys. map_of res x = Some row \<and> map_of row m = Some ys"
  shows "pool_samples c m xs acc = Inr (acc @ concat (map (\<lambda>x. samples_of c x m) xs))"
  using assms
proof (induction xs arbitrary: acc)
  case Nil
  then show ?case by simp
next
  case (Cons x xs)
  from Cons.prems obtain row ys where r: "map_of res x = Some row" "map_of row m = Some ys"
    by auto
  have s: "samples_of c x m = ys"
    using Cons.prems(1) r by (simp add: samples_of_def)
  have "pool_samples c m (x # xs) acc = pool_samples c m xs (acc @ ys)"
    using Cons.prems(1) r by (simp add: get_attr_def getitem_def)
  also have "\<dots> = Inr ((acc @ ys) @ concat (map (\<lambda>x. samples_of c x m) xs))"
    using Cons.IH [of "acc @ ys"] Cons.prems by simp
  finally show ?case using s by simp
qed

lemma populated_lookup:
  assumes "populated c" and "m \<in> set (metrics c)"
  shows "\<exists>res. results c = Some res \<and>
           (\<forall>x \<in> set (circuits c). \<exists>row ys. map_of res x = Some row \<and> map_of row m = Some ys)"
proof -
  from assms(1) obtain res where res: "results c = Some res"
    by (auto simp: populated_def split: option.splits)
  have "\<exists>row ys. map_of res x = Some row \<and> map_of row m = Some ys"
    if "x \<in> set (circuits c)" for x
  proof -
    from assms(1) res that obtain row where row: "map_of res x = Some row"
      and all: "list_all (\<lambda>m. map_of row m \<noteq> None) (metrics c)"
      by (auto simp: populated_def list_all_iff split: option.splits)
    from all assms(2) have "map_of row m \<noteq> None" by (simp add: list_all_iff)
    with row show ?thesis by auto
  qed
  with res show ?thesis by blast
qed

lemma get_geomean_populated:
  assumes "populated c" and "m \<in> set (metrics c)"
  shows "get_geomean c m = Inr (gmean (concat (map (\<lambda>x. samples_of c x m) (circuits c))))"
proof -
  from populated_lookup [OF assms] obtain res where "results c = Some res"
    and "\<forall>x \<in> set (circuits c). \<exists>row ys. map_of res x = Some row \<and> map_of row m = Some ys"
    by blast
  then have "pool_samples c m (circuits c) [] =
      Inr ([] @ concat (map (\<lambda>x. samples_of c x m) (circuits c)))"
    by (rule pool_samples_concat)
  then show ?thesis by (simp add: get_geomean_def)
qed

lemma gmean_1_4: "gmean [1, 4] = Fin 2"
proof -
  have "ln (4::real) = ln (2 ^ 2)" by simp
  also have "\<dots> = 2 * ln 2" by (simp only: ln_realpow)
  finally have "exp (ln (4::real) / 2) = 2" by simp
  then show ?thesis by (simp add: gmean_def)
qed

lemma gmean_single: "0 < x \<Longrightarrow> gmean [x] = Fin x"
  by (simp add: gmean_def)

lemma two_circuits_populated: "populated two_circuits"
  by (simp add: populated_def two_circuits_def)

text \<open>
  Claim C1. For a populated accumulator and each of its metrics, \<open>get_geomean\<close> returns
  the geometric mean of one sequence: the sample lists of the circuits for that metric,
  concatenated in the order of \<open>self.circuits\<close> (the list the loop runs over). And there
  is a populated accumulator where this value is not the arithmetic mean of the
  geometric means per circuit: with samples 1 and 4 the pooled value is 2, the mean of
  the per-circuit values 5/2.
\<close>

theorem get_geomean_pools_all_samples:
  "(\<forall>c m. populated c \<and> m \<in> set (metrics c) \<longrightarrow>
       get_geomean c m = Inr (gmean (concat (map (\<lambda>x. samples_of c x m) (circuits c)))))
   \<and> (\<exists>c m a b. populated c \<and> m \<in> set (metrics c) \<and> get_geomean c m = Inr (Fin a)
         \<and> mean_of_geomeans c m = Fin b \<and> a \<noteq> b)"
proof (intro conjI allI impI)
  fix c m
  assume "populated c \<and> m \<in> set (metrics c)"
  then show "get_geomean c m = Inr (gmean (concat (map (\<lambda>x. samples_of c x m) (circuits c))))"
    using get_geomean_populated by blast
next
  have m: "''runtime'' \<in> set (metrics two_circuits)"
    by (simp add: two_circuits_def)
  have sa: "samples_of two_circuits ''a'' ''runtime'' = [1]"
    and sb: "samples_of two_circuits ''b'' ''runtime'' = [4]"
    by (simp_all add: samples_of_def two_circuits_def)
  have cs: "circuits two_circuits = [''a'', ''b'']"
    by (simp add: two_circuits_def)
  have g: "get_geomean two_circuits ''runtime'' = Inr (Fin 2)"
    using get_geomean_populated [OF two_circuits_populated m]
    by (simp add: cs sa sb gmean_1_4)
  have mg: "mean_of_geomeans two_circuits ''runtime'' = Fin (5 / 2)"
    by (simp add: mean_of_geomeans_def cs sa sb gmean_single)
  have "(2::real) \<noteq> 5 / 2" by simp
  with two_circuits_populated m g mg
  show "\<exists>c m a b. populated c \<and> m \<in> set (metrics c) \<and> get_geomean c m = Inr (Fin a)
         \<and> mean_of_geomeans c m = Fin b \<and> a \<noteq> b"
    by blast
qed

theorem get_geomean_pools_all_samples_witness:
  "populated two_circuits \<and> ''runtime'' \<in> set (metrics two_circuits)
   \<and> get_geomean two_circuits ''runtime'' = Inr (gmean [1, 4])"
proof -
  have p: "populated two_circuits \<and> ''runtime'' \<in> set (metrics two_circuits)"
    by (simp add: populated_def two_circuits_def)
  have "get_geomean two_circuits ''runtime'' =
      Inr (gmean (concat (map (\<lambda>x. samples_of two_circuits x ''runtime'') (circuits two_circuits))))"
    using get_geomean_pools_all_samples p by blast
  then show ?thesis using p by (simp add: samples_of_def two_circuits_def)
qed

section \<open>The command template is not modified\<close>

lemma substitute_loop_length:
  "length (substitute_loop h a circuit seed is) = length h"
  by (induction "is" arbitrary: h) simp_all

lemma substitute_loop_other:
  "b \<noteq> a \<Longrightarrow> substitute_loop h a circuit seed is ! b = h ! b"
  by (induction "is" arbitrary: h) simp_all

lemma substitute_loop_target:
  assumes "a < length h" and "distinct is"
  shows "substitute_loop h a circuit seed is ! a =
     map (\<lambda>i. if i \<in> set is then substitute circuit seed (h ! a ! i) else h ! a ! i)
       [0 ..< length (h ! a)]"
  using assms
proof (induction "is" arbitrary: h)
  case Nil
  then show ?case by (simp add: map_nth)
next
  case (Cons i "is")
  let ?h = "h[a := (h ! a)[i := substitute circuit seed (h ! a ! i)]]"
  have a: "a < length ?h" using Cons.prems by simp
  have d: "distinct is" and ni: "i \<notin> set is" using Cons.prems by simp_all
  have row: "?h ! a = (h ! a)[i := substitute circuit seed (h ! a ! i)]"
    using Cons.prems by simp
  have "substitute_loop h a circuit seed (i # is) ! a = substitute_loop ?h a circuit seed is ! a"
    by simp
  also have "\<dots> = map (\<lambda>j. if j \<in> set is then substitute circuit seed (?h ! a ! j) else ?h ! a ! j)
       [0 ..< length (?h ! a)]"
    using Cons.IH [OF a d] .
  also have "\<dots> = map (\<lambda>j. if j \<in> set (i # is) then substitute circuit seed (h ! a ! j) else h ! a ! j)
       [0 ..< length (h ! a)]"
  proof -
    have "(if j \<in> set is then substitute circuit seed (?h ! a ! j) else ?h ! a ! j) =
          (if j \<in> set (i # is) then substitute circuit seed (h ! a ! j) else h ! a ! j)"
      if "j < length (h ! a)" for j
    proof (cases "j = i")
      case True
      then show ?thesis using ni that by (simp add: row)
    next
      case False
      then show ?thesis by (simp add: row)
    qed
    then show ?thesis by (simp add: row)
  qed
  finally show ?case .
qed

lemma substitute_loop_all:
  assumes "a < length h"
  shows "substitute_loop h a circuit seed [0 ..< length (h ! a)] ! a =
     map (substitute circuit seed) (h ! a)"
proof -
  have "substitute_loop h a circuit seed [0 ..< length (h ! a)] ! a =
      map (\<lambda>i. substitute circuit seed (h ! a ! i)) [0 ..< length (h ! a)]"
    using substitute_loop_target [OF assms, of "[0 ..< length (h ! a)]" circuit seed]
    by (simp cong: map_cong)
  also have "\<dots> = map (substitute circuit seed) (map (\<lambda>i. h ! a ! i) [0 ..< length (h ! a)])"
    by (simp add: comp_def)
  also have "\<dots> = map (substitute circuit seed) (h ! a)"
    by (simp only: map_nth)
  finally show ?thesis .
qed

lemma call_circuit_heap:
  assumes "cmd < length h"
    and "call_circuit env h cmd circuit seed p = (r, h1, p1)"
  shows "length h1 = Suc (length h)"
    and "\<forall>a < length h. h1 ! a = h ! a"
    and "(r, p1) = call_circuit_value env (h ! cmd) circuit seed p"
proof -
  let ?h0 = "h @ [h ! cmd]"
  let ?h2 = "substitute_loop ?h0 (length h) circuit seed [0 ..< length (?h0 ! length h)]"
  have new: "?h2 ! length h = map (substitute circuit seed) (h ! cmd)"
    using substitute_loop_all [of "length h" ?h0 circuit seed] by simp
  have old: "?h2 ! a = h ! a" if "a < length h" for a
    using that by (simp add: substitute_loop_other nth_append)
  have len: "length ?h2 = Suc (length h)"
    by (simp add: substitute_loop_length)
  from assms(2) have h1: "h1 = ?h2"
    by (simp add: call_circuit_def deepcopy_def Let_def split: prod.splits)
  show "length h1 = Suc (length h)" using h1 len by simp
  show "\<forall>a < length h. h1 ! a = h ! a" using h1 old by simp
  show "(r, p1) = call_circuit_value env (h ! cmd) circuit seed p"
    using assms(2) new
    by (auto simp: call_circuit_def call_circuit_value_def deepcopy_def Let_def split: prod.splits)
qed

text \<open>
  Claim C10. \<open>call_circuit\<close> leaves the list at the caller's address as it was: the
  substitution writes to the copy only. Every list that existed before the call is
  unchanged, the command that is run is the template with both placeholders
  substituted, and a later call on the same address, for any circuit and seed, starts
  from the same template.
\<close>

theorem call_circuit_leaves_command_unchanged:
  assumes "cmd < length h"
    and "call_circuit env h cmd circuit seed p = (r, h1, p1)"
  shows "h1 ! cmd = h ! cmd
    \<and> (\<forall>a < length h. h1 ! a = h ! a)
    \<and> (r, p1) = call_circuit_value env (h ! cmd) circuit seed p
    \<and> (\<forall>circuit2 seed2 r2 h2 p2.
          call_circuit env h1 cmd circuit2 seed2 p1 = (r2, h2, p2) \<longrightarrow>
          h2 ! cmd = h ! cmd
          \<and> (r2, p2) = call_circuit_value env (h ! cmd) circuit2 seed2 p1)"
proof -
  note first = call_circuit_heap [OF assms]
  have same: "h1 ! cmd = h ! cmd" using first(2) assms(1) by simp
  have cmd1: "cmd < length h1" using first(1) assms(1) by simp
  have "h2 ! cmd = h ! cmd \<and> (r2, p2) = call_circuit_value env (h ! cmd) circuit2 seed2 p1"
    if "call_circuit env h1 cmd circuit2 seed2 p1 = (r2, h2, p2)" for circuit2 seed2 r2 h2 p2
    using call_circuit_heap [OF cmd1 that] cmd1 same by simp
  with same first show ?thesis by blast
qed


theorem call_circuit_leaves_command_unchanged_witness:
  "(1::nat) < length [[''x''], [''tool'', ''{circuit}'', ''{seed}'']]
   \<and> (\<exists>r h1 p1. call_circuit example_env [[''x''], [''tool'', ''{circuit}'', ''{seed}'']] 1 ''a'' 7
         example_process = (r, h1, p1)
       \<and> h1 ! 1 = [''tool'', ''{circuit}'', ''{seed}'']
       \<and> spawned p1 = [[''tool'', ''a'', ''7'']])"
proof -
  let ?h = "[[''x''], [''tool'', ''{circuit}'', ''{seed}'']]"
  obtain r h1 p1 where run: "call_circuit example_env ?h 1 ''a'' 7 example_process = (r, h1, p1)"
    by (metis prod_cases3)
  have len: "(1::nat) < length ?h" by simp
  from call_circuit_leaves_command_unchanged [OF len run]
  have same: "h1 ! 1 = ?h ! 1"
    and val: "(r, p1) = call_circuit_value example_env (?h ! 1) ''a'' 7 example_process"
    by blast+
  have s1: "substitute ''a'' 7 ''tool'' = ''tool''" by code_simp
  have s2: "substitute ''a'' 7 ''{circuit}'' = ''a''" by code_simp
  have s3: "substitute ''a'' 7 ''{seed}'' = ''7''" by code_simp
  have "spawned p1 = [[''tool'', ''a'', ''7'']]"
    using val by (auto simp: call_circuit_value_def example_process_def s1 s2 s3 Let_def split: prod.splits)
  with len run same show ?thesis by simp
qed

section \<open>What a run leaves unchanged in the accumulator\<close>

lemma record_metrics_keeps:
  "record_metrics env m x ms c = (e, c1) \<Longrightarrow>
     circuits c1 = circuits c \<and> metrics c1 = metrics c \<and> stats_regex c1 = stats_regex c
     \<and> architecture c1 = architecture c \<and> circuit_file c1 = circuit_file c
     \<and> seeds c1 = seeds c \<and> command c1 = command c"
proof (induction ms arbitrary: c)
  case Nil
  then show ?case by simp
next
  case (Cons metric ms)
  show ?case
  proof (cases "\<exists>res row ys v. results c = Some res \<and> map_of res x = Some row
      \<and> map_of row metric = Some ys
      \<and> group_float env m (str_replace '' '' ''_'' (str_lower metric)) = Inr v")
    case True
    then obtain res row ys v where h: "results c = Some res" "map_of res x = Some row"
      "map_of row metric = Some ys"
      "group_float env m (str_replace '' '' ''_'' (str_lower metric)) = Inr v"
      by blast
    let ?c = "c\<lparr>results := Some (AList.update x (AList.update metric (ys @ [v]) row) res)\<rparr>"
    from Cons.prems h have "record_metrics env m x ms ?c = (e, c1)"
      by (simp add: get_attr_def getitem_def)
    from Cons.IH [OF this] show ?thesis by simp
  next
    case False
    with Cons.prems have "c1 = c"
      by (auto simp: get_attr_def getitem_def Let_def split: option.splits sum.splits)
    then show ?thesis by simp
  qed
qed

lemma call_circuits_keeps:
  "call_circuits env search cmd seed xs c p = (e, c1, p1) \<Longrightarrow>
     circuits c1 = circuits c \<and> metrics c1 = metrics c \<and> stats_regex c1 = stats_regex c
     \<and> architecture c1 = architecture c \<and> circuit_file c1 = circuit_file c
     \<and> seeds c1 = seeds c \<and> command c1 = command c"
proof (induction xs arbitrary: c p)
  case Nil
  then show ?case by simp
next
  case (Cons x xs)
  obtain r p0 where cc: "call_circuit_value env cmd x seed (print (''  '' @ x) p) = (r, p0)"
    by (cases "call_circuit_value env cmd x seed (print (''  '' @ x) p)")
  show ?case
  proof (cases "\<exists>out m c0. r = Inr (out, []) \<and> search out = Some m
      \<and> record_metrics env m x (metrics c) c = (None, c0)")
    case True
    then obtain out m c0 where h: "r = Inr (out, [])" "search out = Some m"
      "record_metrics env m x (metrics c) c = (None, c0)"
      by blast
    from Cons.prems cc h have "call_circuits env search cmd seed xs c0 p0 = (e, c1, p1)"
      by simp
    from Cons.IH [OF this] record_metrics_keeps [OF h(3)] show ?thesis by simp
  next
    case False
    show ?thesis
    proof (cases r)
      case (Inl ex)
      with Cons.prems cc show ?thesis by simp
    next
      case (Inr oe)
      obtain out err where oe: "oe = (out, err)" by (cases oe)
      show ?thesis
      proof (cases "err = []")
        case nerr: False
        with Cons.prems cc Inr oe show ?thesis by simp
      next
        case True
        show ?thesis
        proof (cases "search out")
          case None
          with Cons.prems cc Inr oe True show ?thesis by simp
        next
          case (Some m)
          obtain e0 c0 where rm: "record_metrics env m x (metrics c) c = (e0, c0)"
            by (cases "record_metrics env m x (metrics c) c")
          with False Inr oe True Some obtain ex where ex: "e0 = Some ex"
            by (cases e0) auto
          with Cons.prems cc Inr oe True Some rm have "c1 = c0" by simp
          with record_metrics_keeps [OF rm] show ?thesis by simp
        qed
      qed
    qed
  qed
qed

lemma call_all_circuits_with_seed_keeps:
  "call_all_circuits_with_seed env cmd seed c p = (e, c1, p1) \<Longrightarrow>
     circuits c1 = circuits c \<and> metrics c1 = metrics c \<and> stats_regex c1 = stats_regex c
     \<and> architecture c1 = architecture c \<and> circuit_file c1 = circuit_file c
     \<and> seeds c1 = seeds c"
  by (auto simp: call_all_circuits_with_seed_def split: option.splits dest!: call_circuits_keeps)

lemma call_seeds_keeps:
  "call_seeds env cmd ss c p = (e, c1, p1) \<Longrightarrow>
     circuits c1 = circuits c \<and> metrics c1 = metrics c \<and> stats_regex c1 = stats_regex c
     \<and> architecture c1 = architecture c \<and> circuit_file c1 = circuit_file c
     \<and> seeds c1 = seeds c"
proof (induction ss arbitrary: c p)
  case Nil
  then show ?case by simp
next
  case (Cons seed ss)
  obtain e0 c0 p0 where w: "call_all_circuits_with_seed env cmd seed c p = (e0, c0, p0)"
    by (metis prod_cases3)
  note k = call_all_circuits_with_seed_keeps [OF w]
  show ?case
  proof (cases e0)
    case None
    with Cons.prems w have "call_seeds env cmd ss c0 p0 = (e, c1, p1)" by simp
    from Cons.IH [OF this] k show ?thesis by simp
  next
    case (Some ex)
    with Cons.prems w have "c1 = c0" by simp
    with k show ?thesis by simp
  qed
qed


lemma init_run_seeds:
  "init_run env n c p = (sds, c0, p0) \<Longrightarrow>
     sds = seed_sequence env n \<and> seeds c0 = Some (seed_sequence env n)
     \<and> circuits c0 = circuits c \<and> metrics c0 = metrics c \<and> stats_regex c0 = stats_regex c"
  by (auto simp: init_run_def seed_sequence_def Let_def split: prod.splits)





section \<open>Runs in the example environment\<close>

lemma group_name_runtime: "str_replace '' '' ''_'' (str_lower ''runtime'') = ''runtime''" by code_simp
lemma group_name_bb_cost: "str_replace '' '' ''_'' (str_lower ''BB cost'') = ''bb_cost''" by code_simp
lemma group_name_max_delay: "str_replace '' '' ''_'' (str_lower ''max delay'') = ''max_delay''" by code_simp

lemma example_place_caller: "PlaceCaller ''arch'' ''c'' ''a'' =
   \<lparr> circuits = [''a''], metrics = place_metrics, stats_regex = place_stats_regex,
     architecture = ''arch'', circuit_file = ''c/{circuit}.blif'',
     results = None, seeds = None, command = None \<rparr>"
  by (simp add: PlaceCaller_def path_join_def)

lemma example_substitute_command: "map (substitute ''a'' 7) (build_command ''arch'' ''c/{circuit}.blif'' opts) =
   [''java'', ''-cp'', ''bin'', ''interfaces.CLI'', ''arch'', ''c/a.blif'',
    ''--output_place_file'', ''tmp/a.place'', ''--random_seed'', ''7''] @ map (substitute ''a'' 7) opts"
proof -
  have "map (substitute ''a'' 7) [''java'', ''-cp'', ''bin'', ''interfaces.CLI'', ''arch'', ''c/{circuit}.blif'',
      ''--output_place_file'', ''tmp/{circuit}.place'', ''--random_seed'', ''{seed}''] =
    [''java'', ''-cp'', ''bin'', ''interfaces.CLI'', ''arch'', ''c/a.blif'',
    ''--output_place_file'', ''tmp/a.place'', ''--random_seed'', ''7'']"
    by code_simp
  then show ?thesis by (simp add: build_command_def)
qed




lemma example_place_command:
  assumes "map (substitute ''a'' 7) opts = opts"
  shows "map (substitute ''a'' 7) (build_command ''arch'' ''c/{circuit}.blif'' opts) =
     [''java'', ''-cp'', ''bin'', ''interfaces.CLI'', ''arch'', ''c/a.blif'',
      ''--output_place_file'', ''tmp/a.place'', ''--random_seed'', ''7''] @ opts"
  using example_substitute_command [of opts] assms by simp

lemma example_popen_ok:
  assumes "set opts \<inter> {''fail'', ''c/fail.blif'', ''odd'', ''c/odd.blif''} = {}"
  shows "example_popen ([''java'', ''-cp'', ''bin'', ''interfaces.CLI'', ''arch'', ''c/a.blif'',
      ''--output_place_file'', ''tmp/a.place'', ''--random_seed'', ''7''] @ opts) w =
     (Inr (''statistics'', []), List.insert ''tmp'' w)"
  using assms by (auto simp: example_popen_def)

lemma example_call_ok:
  assumes "map (substitute ''a'' 7) opts = opts"
    and "set opts \<inter> {''fail'', ''c/fail.blif'', ''odd'', ''c/odd.blif''} = {}"
  shows "call_circuit_value example_env (build_command ''arch'' ''c/{circuit}.blif'' opts) ''a'' 7 q =
     (Inr (''statistics'', []),
      q\<lparr>world := List.insert ''tmp'' (world q),
        spawned := spawned q @ [[''java'', ''-cp'', ''bin'', ''interfaces.CLI'', ''arch'', ''c/a.blif'',
      ''--output_place_file'', ''tmp/a.place'', ''--random_seed'', ''7''] @ opts]\<rparr>)"
proof -
  have "popen example_env = example_popen" by (simp add: example_env_def)
  then show ?thesis
    unfolding call_circuit_value_def example_place_command [OF assms(1)] Let_def
    by (simp only: example_popen_ok [OF assms(2)]) simp
qed

lemma example_record:
  assumes "results c = Some [(''a'', [(''runtime'', rs), (''BB cost'', bs), (''max delay'', ds)])]"
  shows "record_metrics example_env example_match ''a'' place_metrics c =
     (None, c\<lparr>results := Some [(''a'', [(''runtime'', rs @ [2]), (''BB cost'', bs @ [3]),
                                        (''max delay'', ds @ [5])])]\<rparr>)"
  using assms
  by (simp add: place_metrics_def group_name_runtime group_name_bb_cost group_name_max_delay get_attr_def getitem_def group_float_def
      example_match_def example_env_def example_float_def)






section \<open>The seed sequence\<close>



section \<open>A run up to one invocation\<close>

lemma call_circuits_append:
  "call_circuits env search cmd seed pre c p = (None, c1, p1) \<Longrightarrow>
     call_circuits env search cmd seed (pre @ rest) c p =
     call_circuits env search cmd seed rest c1 p1"
proof (induction pre arbitrary: c p)
  case Nil
  then show ?case by simp
next
  case (Cons x xs)
  obtain r p0 where cc: "call_circuit_value env cmd x seed (print (''  '' @ x) p) = (r, p0)"
    by (cases "call_circuit_value env cmd x seed (print (''  '' @ x) p)")
  from Cons.prems cc obtain out m c0 where h: "r = Inr (out, [])" "search out = Some m"
      "record_metrics env m x (metrics c) c = (None, c0)"
    and rest: "call_circuits env search cmd seed xs c0 p0 = (None, c1, p1)"
    by (auto split: sum.splits if_splits option.splits prod.splits)
  from Cons.IH [OF rest] cc h show ?case by simp
qed

lemma call_seeds_append:
  "call_seeds env cmd spre c p = (None, c1, p1) \<Longrightarrow>
     call_seeds env cmd (spre @ rest) c p = call_seeds env cmd rest c1 p1"
proof (induction spre arbitrary: c p)
  case Nil
  then show ?case by simp
next
  case (Cons seed ss)
  from Cons.prems obtain c0 p0 where w: "call_all_circuits_with_seed env cmd seed c p = (None, c0, p0)"
    and rest: "call_seeds env cmd ss c0 p0 = (None, c1, p1)"
    by (auto split: option.splits prod.splits)
  from Cons.IH [OF rest] w show ?case by simp
qed

lemma run_reaches_invocation:
  assumes "init_run env n c p = (spre @ seed # spost, c0, p0)"
    and "call_seeds env cmd spre c0 p0 = (None, c1, p1)"
    and "re_compile env (stats_regex c) = Some search"
    and "circuits c = pre @ x # post"
    and "call_circuits env search cmd seed pre (c1\<lparr>command := Some cmd\<rparr>) p1 = (None, c2, p2)"
  shows "call_all_circuits env cmd n c p =
     (case call_circuits env search cmd seed (x # post) c2 p2 of
        (Some e, c3, p3) \<Rightarrow> (Some e, c3, p3)
      | (None, c3, p3) \<Rightarrow> call_seeds env cmd spost c3 p3)"
    and "stats_regex c2 = stats_regex c" and "metrics c2 = metrics c"
proof -
  note i = init_run_seeds [OF assms(1)]
  note k1 = call_seeds_keeps [OF assms(2)]
  note k2 = call_circuits_keeps [OF assms(5)]
  show "stats_regex c2 = stats_regex c" using i k1 k2 by simp
  show "metrics c2 = metrics c" using i k1 k2 by simp
  have re: "re_compile env (stats_regex c1) = Some search"
    using assms(3) i k1 by simp
  have cs: "circuits c1 = pre @ x # post"
    using assms(4) i k1 by simp
  have "call_all_circuits env cmd n c p = call_seeds env cmd (spre @ seed # spost) c0 p0"
    using assms(1) by (simp add: call_all_circuits_def)
  also have "\<dots> = call_seeds env cmd (seed # spost) c1 p1"
    using assms(2) by (rule call_seeds_append)
  also have "\<dots> = (case call_circuits env search cmd seed (pre @ x # post)
                         (c1\<lparr>command := Some cmd\<rparr>) p1 of
        (Some e, c3, p3) \<Rightarrow> (Some e, c3, p3)
      | (None, c3, p3) \<Rightarrow> call_seeds env cmd spost c3 p3)"
    by (simp add: call_all_circuits_with_seed_def re cs)
  also have "call_circuits env search cmd seed (pre @ x # post) (c1\<lparr>command := Some cmd\<rparr>) p1 =
      call_circuits env search cmd seed (x # post) c2 p2"
    using assms(5) by (rule call_circuits_append)
  finally show "call_all_circuits env cmd n c p =
     (case call_circuits env search cmd seed (x # post) c2 p2 of
        (Some e, c3, p3) \<Rightarrow> (Some e, c3, p3)
      | (None, c3, p3) \<Rightarrow> call_seeds env cmd spost c3 p3)" .
qed

lemma call_circuit_value_log:
  "call_circuit_value env cmd x seed p = (r, p1) \<Longrightarrow>
     printed p1 = printed p \<and> spawned p1 = spawned p @ [map (substitute x seed) cmd]
     \<and> rng p1 = rng p"
  by (auto simp: call_circuit_value_def Let_def split: prod.splits)

lemma example_tool_a: "map (substitute ''a'' 7) [''tool'', ''{circuit}'', ''{seed}''] = [''tool'', ''a'', ''7'']"
  by code_simp
lemma example_tool_fail: "map (substitute ''fail'' 7) [''tool'', ''{circuit}'', ''{seed}''] = [''tool'', ''fail'', ''7'']"
  by code_simp
lemma example_tool_odd: "map (substitute ''odd'' 7) [''tool'', ''{circuit}'', ''{seed}''] = [''tool'', ''odd'', ''7'']"
  by code_simp

lemma example_env_simps:
  "popen example_env = example_popen"
  "re_compile example_env pat = Some example_search"
  "py_float example_env = example_float"
  "random_seed example_env a = a"
  "randrange example_env n g = ((7 * g) mod n, g + 1)"
  "os_remove example_env = example_remove"
  "rmtree example_env = example_remove"
  by (simp_all add: example_env_def)

lemma example_init_run:
  assumes "second \<noteq> ''a''" and "second \<noteq> ''b''"
  shows "init_run example_env 2 (example_caller second) example_process =
     ([] @ 7 # [14],
      example_caller second
        \<lparr>results := Some [(''a'', [(''runtime'', [])]), (second, [(''runtime'', [])]),
                           (''b'', [(''runtime'', [])])],
         seeds := Some [7, 14]\<rparr>,
      example_process\<lparr>rng := 3\<rparr>)"
  using assms
  by (simp add: init_run_def example_env_simps example_caller_def numeral_2_eq_2 Let_def)

lemma example_first_circuit:
  assumes "second \<noteq> ''a''"
  shows "call_circuits example_env example_search [''tool'', ''{circuit}'', ''{seed}''] 7 [''a'']
      (example_caller second
        \<lparr>results := Some [(''a'', [(''runtime'', [])]), (second, [(''runtime'', [])]),
                           (''b'', [(''runtime'', [])])],
         seeds := Some [7, 14], command := Some [''tool'', ''{circuit}'', ''{seed}'']\<rparr>)
      (example_process\<lparr>rng := 3\<rparr>) =
     (None,
      example_caller second
        \<lparr>results := Some [(''a'', [(''runtime'', [2])]), (second, [(''runtime'', [])]),
                           (''b'', [(''runtime'', [])])],
         seeds := Some [7, 14], command := Some [''tool'', ''{circuit}'', ''{seed}'']\<rparr>,
      \<lparr>world = [''tmp''], rng = 3, printed = [''  a''], spawned = [[''tool'', ''a'', ''7'']]\<rparr>)"
proof -
  have cc: "call_circuit_value example_env [''tool'', ''{circuit}'', ''{seed}''] ''a'' 7 q =
      (Inr (''statistics'', []),
       q\<lparr>world := List.insert ''tmp'' (world q), spawned := spawned q @ [[''tool'', ''a'', ''7'']]\<rparr>)" for q
    unfolding call_circuit_value_def example_tool_a Let_def
    by (simp add: example_env_simps example_popen_def)
  show ?thesis using assms
    by (simp add: cc example_search_def example_caller_def print_def example_process_def
        group_name_runtime get_attr_def getitem_def group_float_def example_match_def
        example_env_simps example_float_def Let_def)
qed

section \<open>A tool failure aborts the run\<close>

text \<open>
  Claim C7. Take a run of \<open>call_all_circuits\<close> that has gone through the seeds \<open>spre\<close>
  and, for the seed \<open>seed\<close>, through the circuits \<open>pre\<close>, leaving the accumulator \<open>c2\<close>
  and the process \<open>p2\<close>, and whose next invocation, for the circuit \<open>x\<close>, returns a
  non-empty stderr. Then the run raises \<open>SystemExit 1\<close>. The lines printed after the
  progress line of \<open>x\<close> are the stderr text and the message that names the circuit.
  The failing command is the last one spawned: no circuit of \<open>post\<close> and no seed of
  \<open>spost\<close> is invoked. The accumulator is \<open>c2\<close>, as the last successful invocation
  left it: nothing is recorded for the failing invocation or after it, and the run
  returns no table.
\<close>

theorem stderr_aborts_run:
  assumes "init_run env n c p = (spre @ seed # spost, c0, p0)"
    and "call_seeds env cmd spre c0 p0 = (None, c1, p1)"
    and "re_compile env (stats_regex c) = Some search"
    and "circuits c = pre @ x # post"
    and "call_circuits env search cmd seed pre (c1\<lparr>command := Some cmd\<rparr>) p1 = (None, c2, p2)"
    and "call_circuit_value env cmd x seed (print (''  '' @ x) p2) = (Inr (out, err), p3)"
    and "err \<noteq> []"
  shows "\<exists>pf. call_all_circuits env cmd n c p = (Some (SystemExit 1), c2, pf)
     \<and> printed pf = printed p2 @ [''  '' @ x, err, problem_message x]
     \<and> spawned pf = spawned p2 @ [map (substitute x seed) cmd]
     \<and> world pf = world p3"
proof -
  let ?pf = "print (problem_message x) (print err p3)"
  have "call_circuits env search cmd seed (x # post) c2 p2 = (Some (SystemExit 1), c2, ?pf)"
    using assms(6,7) by simp
  with run_reaches_invocation(1) [OF assms(1-5)]
  have "call_all_circuits env cmd n c p = (Some (SystemExit 1), c2, ?pf)" by simp
  moreover have "printed ?pf = printed p2 @ [''  '' @ x, err, problem_message x]"
    using call_circuit_value_log [OF assms(6)] by (simp add: print_def)
  moreover have "spawned ?pf = spawned p2 @ [map (substitute x seed) cmd]"
    using call_circuit_value_log [OF assms(6)] by (simp add: print_def)
  moreover have "world ?pf = world p3" by (simp add: print_def)
  ultimately show ?thesis by blast
qed

theorem stderr_aborts_run_witness:
  "\<exists>c2 pf. call_all_circuits example_env [''tool'', ''{circuit}'', ''{seed}''] 2
        (example_caller ''fail'') example_process = (Some (SystemExit 1), c2, pf)
     \<and> printed pf = [''  a'', ''  fail'', ''boom'', problem_message ''fail'']
     \<and> spawned pf = [[''tool'', ''a'', ''7''], [''tool'', ''fail'', ''7'']]
     \<and> results c2 = Some [(''a'', [(''runtime'', [2])]), (''fail'', [(''runtime'', [])]),
                          (''b'', [(''runtime'', [])])]"
proof -
  let ?cmd = "[''tool'', ''{circuit}'', ''{seed}'']"
  let ?c0 = "example_caller ''fail''
        \<lparr>results := Some [(''a'', [(''runtime'', [])]), (''fail'', [(''runtime'', [])]),
                           (''b'', [(''runtime'', [])])],
         seeds := Some [7, 14]\<rparr>"
  let ?p0 = "example_process\<lparr>rng := 3\<rparr>"
  let ?c2 = "example_caller ''fail''
        \<lparr>results := Some [(''a'', [(''runtime'', [2])]), (''fail'', [(''runtime'', [])]),
                           (''b'', [(''runtime'', [])])],
         seeds := Some [7, 14], command := Some ?cmd\<rparr>"
  let ?p2 = "\<lparr>world = [''tmp''], rng = 3, printed = [''  a''], spawned = [[''tool'', ''a'', ''7'']]\<rparr>
        :: (string list, int) process"
  let ?p3 = "\<lparr>world = [''tmp''], rng = 3, printed = [''  a'', ''  fail''],
        spawned = [[''tool'', ''a'', ''7''], [''tool'', ''fail'', ''7'']]\<rparr> :: (string list, int) process"
  have h1: "init_run example_env 2 (example_caller ''fail'') example_process = ([] @ 7 # [14], ?c0, ?p0)"
    by (rule example_init_run) simp_all
  have h2: "call_seeds example_env ?cmd [] ?c0 ?p0 = (None, ?c0, ?p0)" by simp
  have h3: "re_compile example_env (stats_regex (example_caller ''fail'')) = Some example_search"
    by (simp add: example_env_simps)
  have h4: "circuits (example_caller ''fail'') = [''a''] @ ''fail'' # [''b'']"
    by (simp add: example_caller_def)
  have h5: "call_circuits example_env example_search ?cmd 7 [''a''] (?c0\<lparr>command := Some ?cmd\<rparr>) ?p0
      = (None, ?c2, ?p2)"
    using example_first_circuit [of "''fail''"] by simp
  have h6: "call_circuit_value example_env ?cmd ''fail'' 7 (print (''  '' @ ''fail'') ?p2)
      = (Inr ([], ''boom''), ?p3)"
    unfolding call_circuit_value_def example_tool_fail Let_def
    by (simp add: example_env_simps example_popen_def print_def)
  have h7: "''boom'' \<noteq> []" by simp
  from stderr_aborts_run [OF h1 h2 h3 h4 h5 h6 h7]
  obtain pf where "call_all_circuits example_env ?cmd 2 (example_caller ''fail'') example_process
       = (Some (SystemExit 1), ?c2, pf)"
    and "printed pf = printed ?p2 @ [''  '' @ ''fail'', ''boom'', problem_message ''fail'']"
    and "spawned pf = spawned ?p2 @ [map (substitute ''fail'' 7) ?cmd]"
    by blast
  moreover have "results ?c2 = Some [(''a'', [(''runtime'', [2])]), (''fail'', [(''runtime'', [])]),
                          (''b'', [(''runtime'', [])])]"
    by simp
  ultimately show ?thesis using example_tool_fail by simp
qed

section \<open>A stdout without statistics aborts the run\<close>

text \<open>
  Claim C8, amended. Take a run of \<open>call_all_circuits\<close> that has gone through the seeds
  \<open>spre\<close> and, for the seed \<open>seed\<close>, through the circuits \<open>pre\<close>, and whose next
  invocation, for the circuit \<open>x\<close>, returns an empty stderr and a stdout the pattern
  does not match. Then the run raises \<open>SystemExit 1\<close>; the lines printed after the
  progress line of \<open>x\<close> are the whole stdout and the text
  \<open>Failed to match pattern:\<close> followed by the pattern; the accumulator is \<open>c2\<close>, as
  the last successful invocation left it, so no value, default or zero, is recorded
  for any metric of \<open>x\<close> from this invocation; and nothing is invoked afterwards.
\<close>

theorem no_match_aborts_run:
  assumes "init_run env n c p = (spre @ seed # spost, c0, p0)"
    and "call_seeds env cmd spre c0 p0 = (None, c1, p1)"
    and "re_compile env (stats_regex c) = Some search"
    and "circuits c = pre @ x # post"
    and "call_circuits env search cmd seed pre (c1\<lparr>command := Some cmd\<rparr>) p1 = (None, c2, p2)"
    and "call_circuit_value env cmd x seed (print (''  '' @ x) p2) = (Inr (out, []), p3)"
    and "search out = None"
  shows "\<exists>pf. call_all_circuits env cmd n c p = (Some (SystemExit 1), c2, pf)
     \<and> printed pf = printed p2 @ [''  '' @ x, out, ''Failed to match pattern: '' @ stats_regex c]
     \<and> spawned pf = spawned p2 @ [map (substitute x seed) cmd]
     \<and> world pf = world p3"
proof -
  let ?pf = "print (no_match_message (stats_regex c)) (print out p3)"
  have "call_circuits env search cmd seed (x # post) c2 p2 = (Some (SystemExit 1), c2, ?pf)"
    using assms(6,7) run_reaches_invocation(2) [OF assms(1-5)] by simp
  with run_reaches_invocation(1) [OF assms(1-5)]
  have "call_all_circuits env cmd n c p = (Some (SystemExit 1), c2, ?pf)" by simp
  moreover have "printed ?pf =
      printed p2 @ [''  '' @ x, out, ''Failed to match pattern: '' @ stats_regex c]"
    using call_circuit_value_log [OF assms(6)] by (simp add: print_def no_match_message_def)
  moreover have "spawned ?pf = spawned p2 @ [map (substitute x seed) cmd]"
    using call_circuit_value_log [OF assms(6)] by (simp add: print_def)
  moreover have "world ?pf = world p3" by (simp add: print_def)
  ultimately show ?thesis by blast
qed

theorem no_match_aborts_run_witness:
  "\<exists>c2 pf. call_all_circuits example_env [''tool'', ''{circuit}'', ''{seed}''] 2
        (example_caller ''odd'') example_process = (Some (SystemExit 1), c2, pf)
     \<and> printed pf = [''  a'', ''  odd'', ''no statistics'', ''Failed to match pattern: pattern'']
     \<and> spawned pf = [[''tool'', ''a'', ''7''], [''tool'', ''odd'', ''7'']]
     \<and> results c2 = Some [(''a'', [(''runtime'', [2])]), (''odd'', [(''runtime'', [])]),
                          (''b'', [(''runtime'', [])])]"
proof -
  let ?cmd = "[''tool'', ''{circuit}'', ''{seed}'']"
  let ?c0 = "example_caller ''odd''
        \<lparr>results := Some [(''a'', [(''runtime'', [])]), (''odd'', [(''runtime'', [])]),
                           (''b'', [(''runtime'', [])])],
         seeds := Some [7, 14]\<rparr>"
  let ?p0 = "example_process\<lparr>rng := 3\<rparr>"
  let ?c2 = "example_caller ''odd''
        \<lparr>results := Some [(''a'', [(''runtime'', [2])]), (''odd'', [(''runtime'', [])]),
                           (''b'', [(''runtime'', [])])],
         seeds := Some [7, 14], command := Some ?cmd\<rparr>"
  let ?p2 = "\<lparr>world = [''tmp''], rng = 3, printed = [''  a''], spawned = [[''tool'', ''a'', ''7'']]\<rparr>
        :: (string list, int) process"
  let ?p3 = "\<lparr>world = [''tmp''], rng = 3, printed = [''  a'', ''  odd''],
        spawned = [[''tool'', ''a'', ''7''], [''tool'', ''odd'', ''7'']]\<rparr> :: (string list, int) process"
  have h1: "init_run example_env 2 (example_caller ''odd'') example_process = ([] @ 7 # [14], ?c0, ?p0)"
    by (rule example_init_run) simp_all
  have h2: "call_seeds example_env ?cmd [] ?c0 ?p0 = (None, ?c0, ?p0)" by simp
  have h3: "re_compile example_env (stats_regex (example_caller ''odd'')) = Some example_search"
    by (simp add: example_env_simps)
  have h4: "circuits (example_caller ''odd'') = [''a''] @ ''odd'' # [''b'']"
    by (simp add: example_caller_def)
  have h5: "call_circuits example_env example_search ?cmd 7 [''a''] (?c0\<lparr>command := Some ?cmd\<rparr>) ?p0
      = (None, ?c2, ?p2)"
    using example_first_circuit [of "''odd''"] by simp
  have h6: "call_circuit_value example_env ?cmd ''odd'' 7 (print (''  '' @ ''odd'') ?p2)
      = (Inr (''no statistics'', []), ?p3)"
    unfolding call_circuit_value_def example_tool_odd Let_def
    by (simp add: example_env_simps example_popen_def print_def)
  have h7: "example_search ''no statistics'' = None" by (simp add: example_search_def)
  from no_match_aborts_run [OF h1 h2 h3 h4 h5 h6 h7]
  obtain pf where "call_all_circuits example_env ?cmd 2 (example_caller ''odd'') example_process
       = (Some (SystemExit 1), ?c2, pf)"
    and "printed pf = printed ?p2 @ [''  '' @ ''odd'', ''no statistics'',
           ''Failed to match pattern: '' @ stats_regex (example_caller ''odd'')]"
    and "spawned pf = spawned ?p2 @ [map (substitute ''odd'' 7) ?cmd]"
    by blast
  moreover have "results ?c2 = Some [(''a'', [(''runtime'', [2])]), (''odd'', [(''runtime'', [])]),
                          (''b'', [(''runtime'', [])])]"
    by simp
  moreover have "stats_regex (example_caller ''odd'') = ''pattern''"
    by (simp add: example_caller_def)
  ultimately show ?thesis using example_tool_odd by simp
qed

text \<open>
  The claim as stated, without the condition on stderr, fails: when the tool writes
  \<open>no statistics\<close> to stdout, which the pattern does not match, and \<open>boom\<close> to stderr,
  the run exits after printing the stderr text and the message that names the circuit;
  neither the stdout nor the pattern is printed.
\<close>

theorem no_match_with_stderr_counterexample:
  "example_search ''no statistics'' = None
   \<and> fst (call_all_circuits noisy_env [''tool'', ''{circuit}'', ''{seed}''] 1
           (example_caller ''b'') example_process) = Some (SystemExit 1)
   \<and> printed (snd (snd (call_all_circuits noisy_env [''tool'', ''{circuit}'', ''{seed}''] 1
                          (example_caller ''b'') example_process)))
       = [''  a'', ''boom'', ''There was a problem with circuit '' @ [CHR 0x22] @ ''a'' @ [CHR 0x22]]"
proof -
  have cc: "call_circuit_value noisy_env cmd x seed q =
      (Inr (''no statistics'', ''boom''), q\<lparr>spawned := spawned q @ [map (substitute x seed) cmd]\<rparr>)"
    for cmd x seed q
    by (simp add: call_circuit_value_def noisy_env_def Let_def)
  have re: "re_compile noisy_env pat = Some example_search" for pat
    by (simp add: noisy_env_def example_env_def)
  have init: "init_run noisy_env 1 c q =
      ([7], c\<lparr>results := Some (init_results (circuits c) (metrics c) []), seeds := Some [7]\<rparr>,
       q\<lparr>rng := 2\<rparr>)" for c q
    by (simp add: init_run_def noisy_env_def example_env_def Let_def)
  have cs: "circuits (example_caller ''b'') = [''a'', ''b'', ''b'']"
    by (simp add: example_caller_def)
  have run: "call_all_circuits noisy_env [''tool'', ''{circuit}'', ''{seed}''] 1
        (example_caller ''b'') example_process =
      (Some (SystemExit 1),
       example_caller ''b''
         \<lparr>results := Some (init_results (circuits (example_caller ''b''))
                             (metrics (example_caller ''b'')) []),
          seeds := Some [7], command := Some [''tool'', ''{circuit}'', ''{seed}'']\<rparr>,
       print (problem_message ''a'') (print ''boom''
         ((print ''  a'' (example_process\<lparr>rng := 2\<rparr>))
            \<lparr>spawned := spawned (print ''  a'' (example_process\<lparr>rng := 2\<rparr>))
               @ [map (substitute ''a'' 7) [''tool'', ''{circuit}'', ''{seed}'']]\<rparr>)))"
    by (simp add: call_all_circuits_def init call_all_circuits_with_seed_def re cs cc)
  have "example_search ''no statistics'' = None" by (simp add: example_search_def)
  then show ?thesis
    unfolding run by (simp add: print_def problem_message_def example_process_def)
qed

section \<open>The accumulator of the example run\<close>

lemma example_place_all_result:
  assumes "map (substitute ''a'' 7) opts = opts"
    and "set opts \<inter> {''fail'', ''c/fail.blif'', ''odd'', ''c/odd.blif''} = {}"
  shows "fst (snd (place_all example_env opts 1 (PlaceCaller ''arch'' ''c'' ''a'') p)) = example_placed opts"
proof -
  let ?cmd = "build_command ''arch'' ''c/{circuit}.blif'' opts"
  let ?c = "PlaceCaller ''arch'' ''c'' ''a''"
  have se: "example_search ''statistics'' = Some example_match"
    by (simp add: example_search_def)
  have init: "init_run example_env 1 ?c p =
      ([7], ?c\<lparr>results := Some [(''a'', [(''runtime'', []), (''BB cost'', []), (''max delay'', [])])],
               seeds := Some [7]\<rparr>, p\<lparr>rng := 2\<rparr>)"
    by (simp add: init_run_def example_place_caller place_metrics_def example_env_simps)
  show ?thesis
    by (simp add: place_all_def call_all_circuits_def example_place_caller
        init [unfolded example_place_caller] call_all_circuits_with_seed_def example_env_simps
        example_call_ok [OF assms] se example_record print_def example_remove_def Let_def
        example_placed_def)
qed

section \<open>The option sets\<close>

text \<open>
  What \<open>build_option_sets\<close> does: with no option it yields the one empty option set,
  with an empty range it yields none, and in every other case the first subscript of
  the key view raises TypeError.
\<close>

lemma build_option_sets_no_option:
  "build_option_sets [] sw = (None, sw\<lparr>option_sets := Some [[]]\<rparr>)"
  by (simp add: build_option_sets_def)

lemma build_option_sets_empty_range:
  "product_lists (map snd option_ranges) = [] \<Longrightarrow>
     build_option_sets option_ranges sw = (None, sw\<lparr>option_sets := Some []\<rparr>)"
  by (simp add: build_option_sets_def)

lemma build_option_sets_subscript:
  assumes "option_ranges \<noteq> []" and "product_lists (map snd option_ranges) \<noteq> []"
  shows "build_option_sets option_ranges sw =
     (Some (TypeError ''dict_keys object is not subscriptable''), sw\<lparr>option_sets := Some []\<rparr>)"
proof -
  from assms(2) obtain v vs where v: "product_lists (map snd option_ranges) = v # vs"
    by (cases "product_lists (map snd option_ranges)") auto
  from assms(1) have "[0 ..< length (map fst option_ranges)] =
      0 # [Suc 0 ..< length (map fst option_ranges)]"
    by (simp add: upt_conv_Cons)
  then have "build_option_set (map fst option_ranges) v [0 ..< length (map fst option_ranges)] [] =
      Inl (TypeError ''dict_keys object is not subscriptable'')"
    by (simp add: keys_getitem_def)
  with v show ?thesis by (simp add: build_option_sets_def)
qed

text \<open>
  Claim C3 says that the ranges a: [1, 2] and b: [x, y], declared in that order, yield
  the option sets [a,1,b,x], [a,1,b,y], [a,2,b,x], [a,2,b,y]. The code does not get
  that far: the product is enumerated with the last option fastest, but for its first
  tuple \<open>option_names[0]\<close> subscripts the key view and raises TypeError, leaving an
  empty list of option sets.
\<close>

theorem build_option_sets_raises_type_error:
  "build_option_sets [(''a'', [PyInt 1, PyInt 2]), (''b'', [PyStr ''x'', PyStr ''y''])] sw =
     (Some (TypeError ''dict_keys object is not subscriptable''), sw\<lparr>option_sets := Some []\<rparr>)"
  by (simp add: build_option_sets_def keys_getitem_def)

section \<open>The per-circuit table\<close>

lemma result_rows_unbound:
  "metrics c \<noteq> [] \<Longrightarrow> xs \<noteq> [] \<Longrightarrow> result_rows None c xs rows = Inl (NameError ''geomean'')"
  by (cases xs; cases "metrics c") (simp_all add: lookup_geomean_def)

lemma get_results_unbound:
  assumes "command c = Some cmd" and "results c = Some res" and "res \<noteq> []" and "metrics c \<noteq> []"
  shows "get_results None c = Inl (NameError ''geomean'')"
proof -
  have "set (sort (map fst res)) \<noteq> {}" using assms(3) by simp
  then have "sort (map fst res) \<noteq> []" by (metis set_empty)
  with assms show ?thesis
    by (simp add: get_results_def get_command_def get_attr_def result_rows_unbound)
qed

text \<open>
  Claim C5 describes the table \<open>get_results\<close> is written to return: a header, then a row
  for each circuit in sorted order with the geomean of each metric. With the module as
  it is, the call of the unbound name \<open>geomean\<close> raises NameError while the first row
  is built, here for the accumulator that \<open>place_all\<close> leaves in the example
  environment.
\<close>

theorem get_results_raises_name_error:
  "get_results module_geomean (example_placed []) = Inl (NameError ''geomean'')"
  unfolding module_geomean_def
  by (rule get_results_unbound [where res = "[(''a'', [(''runtime'', [2]), (''BB cost'', [3]), (''max delay'', [5])])]"])
     (simp_all add: example_placed_def place_metrics_def)

section \<open>The pareto table\<close>

lemma get_geomean_pooled:
  "populated c \<Longrightarrow> m \<in> set (metrics c) \<Longrightarrow> get_geomean c m = Inr (gmean (pooled_samples c m))"
  by (simp add: get_geomean_populated pooled_samples_def)

lemma pareto_rows_eq:
  assumes "\<forall>i \<in> set is. i < length cs"
    and "\<forall>c \<in> set cs. populated c \<and> ''runtime'' \<in> set (metrics c) \<and> m \<in> set (metrics c)"
  shows "pareto_rows cs m is rows = Inr (rows @ map (\<lambda>i. pareto_row (cs ! i) m i) is)"
  using assms(1)
proof (induction "is" arbitrary: rows)
  case Nil
  then show ?case by simp
next
  case (Cons i "is")
  then have i: "i < length cs" by simp
  then have c: "cs ! i \<in> set cs" by simp
  with assms(2) have p: "populated (cs ! i)" "''runtime'' \<in> set (metrics (cs ! i))"
    "m \<in> set (metrics (cs ! i))"
    by blast+
  have "pareto_rows cs m (i # is) rows = pareto_rows cs m is (rows @ [pareto_row (cs ! i) m i])"
    using i by (simp add: list_getitem_def get_geomean_pooled [OF p(1) p(2)]
        get_geomean_pooled [OF p(1) p(3)] pareto_row_def)
  also have "\<dots> = Inr ((rows @ [pareto_row (cs ! i) m i]) @ map (\<lambda>i. pareto_row (cs ! i) m i) is)"
    using Cons.IH Cons.prems by simp
  finally show ?case by simp
qed

lemma get_pareto_table_eq:
  assumes "option_sets sw = Some sets" and "callers sw = Some cs"
    and "\<forall>c \<in> set cs. populated c \<and> ''runtime'' \<in> set (metrics c) \<and> m \<in> set (metrics c)"
  shows "get_pareto_table sw m = Inr (pareto_table sets cs m)"
proof -
  have "\<forall>i \<in> set [0 ..< length cs]. i < length cs" by simp
  from pareto_rows_eq [OF this assms(3)] assms(1,2) show ?thesis
    by (simp add: get_pareto_table_def get_attr_def pareto_table_def)
qed

lemma pareto_row_cells:
  "length (pareto_row c m i) = i + 2"
  "pareto_row c m i ! 0 = Num (gmean (pooled_samples c ''runtime''))"
  "pareto_row c m i ! Suc i = Num (gmean (pooled_samples c m))"
  "0 < j \<Longrightarrow> j < Suc i \<Longrightarrow> pareto_row c m i ! j = Txt []"
  by (simp_all add: pareto_row_def nth_append nth_Cons')

lemma pareto_row_nonblank:
  assumes "0 < j"
  shows "(j < length (pareto_row c m i) \<and> pareto_row c m i ! j \<noteq> Txt []) \<longleftrightarrow> j = Suc i"
proof (cases "j < Suc i")
  case True
  with assms pareto_row_cells(4) [of j i c m] show ?thesis by simp
next
  case False
  show ?thesis
  proof (cases "j = Suc i")
    case True
    then show ?thesis by (simp add: pareto_row_cells)
  next
    case ne: False
    with False have "\<not> j < length (pareto_row c m i)" by (simp add: pareto_row_cells)
    with ne show ?thesis by simp
  qed
qed

lemma sweep_loop_length:
  "sweep_loop env fixed_options n sets sw cs p = (None, cs1, p1) \<Longrightarrow>
     length cs1 = length cs + length sets"
proof (induction sets arbitrary: cs p)
  case Nil
  then show ?case by simp
next
  case (Cons option_set rest)
  let ?c = "PlaceCaller (sw_architecture sw) (sw_circuits_folder sw) (sw_circuits sw)"
  obtain e0 c0 p0 where r: "place_all env (fixed_options @ option_set) n ?c p = (e0, c0, p0)"
    by (metis prod_cases3)
  with Cons.prems have e0: "e0 = None" by (cases e0) (simp_all add: Let_def)
  with Cons.prems r have "sweep_loop env fixed_options n rest sw (cs @ [c0]) p0 = (None, cs1, p1)"
    by (simp add: Let_def)
  from Cons.IH [OF this] show ?case by simp
qed

text \<open>
  Claim C4. For a sweeper with \<open>k\<close> option sets and \<open>k\<close> populated accumulators that
  measure the runtime and the metric \<open>m\<close>, \<open>get_pareto_table\<close> returns \<open>k + 1\<close> rows.
  The first is the header: \<open>m\<close>, then the rendering of each option set. Data row \<open>i\<close>
  (counted from 0) is the runtime geomean of configuration \<open>i\<close>, then \<open>i\<close> blank cells,
  then the geomean of \<open>m\<close>: the runtime geomean is in column 0, the geomean of \<open>m\<close> in
  column \<open>i + 1\<close>, and among the columns 1 to \<open>k\<close> the cell in column \<open>i + 1\<close> is the
  only one that exists and is not blank.
\<close>

theorem pareto_table_staircase:
  assumes "option_sets sw = Some sets" and "callers sw = Some cs"
    and "length cs = length sets"
    and "\<forall>c \<in> set cs. populated c \<and> ''runtime'' \<in> set (metrics c) \<and> m \<in> set (metrics c)"
  shows "\<exists>rows. get_pareto_table sw m = Inr rows
     \<and> length rows = Suc (length sets)
     \<and> rows ! 0 = Txt m # map (\<lambda>option_set. Txt (str_join '' '' option_set)) sets
     \<and> (\<forall>i < length sets. \<exists>t q.
           get_geomean (cs ! i) ''runtime'' = Inr t \<and> get_geomean (cs ! i) m = Inr q
           \<and> rows ! Suc i = [Num t] @ replicate i (Txt []) @ [Num q]
           \<and> rows ! Suc i ! 0 = Num t
           \<and> rows ! Suc i ! Suc i = Num q
           \<and> (\<forall>j. 0 < j \<and> j \<le> length sets \<longrightarrow>
                 ((j < length (rows ! Suc i) \<and> rows ! Suc i ! j \<noteq> Txt []) \<longleftrightarrow> j = Suc i)))"
proof -
  let ?rows = "pareto_table sets cs m"
  have t: "get_pareto_table sw m = Inr ?rows"
    using assms(1,2,4) by (rule get_pareto_table_eq)
  have len: "length ?rows = Suc (length sets)"
    using assms(3) by (simp add: pareto_table_def)
  have hd: "?rows ! 0 = Txt m # map (\<lambda>option_set. Txt (str_join '' '' option_set)) sets"
    by (simp add: pareto_table_def)
  have row: "\<exists>t q.
           get_geomean (cs ! i) ''runtime'' = Inr t \<and> get_geomean (cs ! i) m = Inr q
           \<and> ?rows ! Suc i = [Num t] @ replicate i (Txt []) @ [Num q]
           \<and> ?rows ! Suc i ! 0 = Num t
           \<and> ?rows ! Suc i ! Suc i = Num q
           \<and> (\<forall>j. 0 < j \<and> j \<le> length sets \<longrightarrow>
                 ((j < length (?rows ! Suc i) \<and> ?rows ! Suc i ! j \<noteq> Txt []) \<longleftrightarrow> j = Suc i))"
    if "i < length sets" for i
  proof -
    from that assms(3) have i: "i < length cs" by simp
    then have "cs ! i \<in> set cs" by simp
    with assms(4) have p: "populated (cs ! i)" "''runtime'' \<in> set (metrics (cs ! i))"
      "m \<in> set (metrics (cs ! i))"
      by blast+
    have r: "?rows ! Suc i = pareto_row (cs ! i) m i"
      using i by (simp add: pareto_table_def)
    have "get_geomean (cs ! i) ''runtime'' = Inr (gmean (pooled_samples (cs ! i) ''runtime''))"
      using p by (simp add: get_geomean_pooled)
    moreover have "get_geomean (cs ! i) m = Inr (gmean (pooled_samples (cs ! i) m))"
      using p by (simp add: get_geomean_pooled)
    moreover have "?rows ! Suc i = [Num (gmean (pooled_samples (cs ! i) ''runtime''))]
        @ replicate i (Txt []) @ [Num (gmean (pooled_samples (cs ! i) m))]"
      unfolding r by (simp add: pareto_row_def)
    moreover have "?rows ! Suc i ! 0 = Num (gmean (pooled_samples (cs ! i) ''runtime''))"
      unfolding r by (rule pareto_row_cells)
    moreover have "?rows ! Suc i ! Suc i = Num (gmean (pooled_samples (cs ! i) m))"
      unfolding r by (rule pareto_row_cells)
    moreover have "\<forall>j. 0 < j \<and> j \<le> length sets \<longrightarrow>
        ((j < length (?rows ! Suc i) \<and> ?rows ! Suc i ! j \<noteq> Txt []) \<longleftrightarrow> j = Suc i)"
      unfolding r using pareto_row_nonblank by blast
    ultimately show ?thesis by blast
  qed
  from t len hd row show ?thesis by blast
qed

lemma example_placed_populated:
  "populated (example_placed opts)" "finished (example_placed opts)"
  "metrics (example_placed opts) = [''runtime'', ''BB cost'', ''max delay'']"
  by (simp_all add: populated_def finished_def example_placed_def place_metrics_def)

lemma example_placed_geomeans:
  "get_geomean (example_placed opts) ''runtime'' = Inr (gmean [2])"
  "get_geomean (example_placed opts) ''BB cost'' = Inr (gmean [3])"
  "get_geomean (example_placed opts) ''max delay'' = Inr (gmean [5])"
  by (simp_all add: get_geomean_def example_placed_def get_attr_def getitem_def)

lemma list_of_three:
  "length xs = Suc (Suc (Suc 0)) \<Longrightarrow> xs = [xs ! 0, xs ! Suc 0, xs ! Suc (Suc 0)]"
  by (auto simp: length_Suc_conv)

theorem pareto_table_staircase_witness:
  "get_pareto_table
     (example_sweeper\<lparr>option_sets := Some [[''x'', ''1''], [''x'', ''2'']],
        callers := Some [example_placed [''x'', ''1''], example_placed [''x'', ''2'']]\<rparr>)
     ''BB cost'' =
   Inr [[Txt ''BB cost'', Txt ''x 1'', Txt ''x 2''],
        [Num (gmean [2]), Num (gmean [3])],
        [Num (gmean [2]), Txt [], Num (gmean [3])]]"
proof -
  let ?sets = "[[''x'', ''1''], [''x'', ''2'']]"
  let ?cs = "[example_placed [''x'', ''1''], example_placed [''x'', ''2'']]"
  let ?sw = "example_sweeper\<lparr>option_sets := Some ?sets, callers := Some ?cs\<rparr>"
  have a: "option_sets ?sw = Some ?sets" and b: "callers ?sw = Some ?cs"
    by simp_all
  have c: "length ?cs = length ?sets" by simp
  have d: "\<forall>c \<in> set ?cs. populated c \<and> ''runtime'' \<in> set (metrics c)
      \<and> ''BB cost'' \<in> set (metrics c)"
    by (simp add: example_placed_populated)
  from pareto_table_staircase [OF a b c d]
  obtain rows where R: "get_pareto_table ?sw ''BB cost'' = Inr rows
     \<and> length rows = Suc (length ?sets)
     \<and> rows ! 0 = Txt ''BB cost'' # map (\<lambda>option_set. Txt (str_join '' '' option_set)) ?sets
     \<and> (\<forall>i < length ?sets. \<exists>t q.
           get_geomean (?cs ! i) ''runtime'' = Inr t \<and> get_geomean (?cs ! i) ''BB cost'' = Inr q
           \<and> rows ! Suc i = [Num t] @ replicate i (Txt []) @ [Num q]
           \<and> rows ! Suc i ! 0 = Num t
           \<and> rows ! Suc i ! Suc i = Num q
           \<and> (\<forall>j. 0 < j \<and> j \<le> length ?sets \<longrightarrow>
                 ((j < length (rows ! Suc i) \<and> rows ! Suc i ! j \<noteq> Txt []) \<longleftrightarrow> j = Suc i)))"
    ..
  note r = R [THEN conjunct1]
  note l = R [THEN conjunct2, THEN conjunct1]
  note h = R [THEN conjunct2, THEN conjunct2, THEN conjunct1]
  note rs = R [THEN conjunct2, THEN conjunct2, THEN conjunct2, rule_format]
  have "0 < length ?sets" by simp
  from rs [OF this] obtain t0 q0 where
    "get_geomean (?cs ! 0) ''runtime'' = Inr t0" "get_geomean (?cs ! 0) ''BB cost'' = Inr q0"
    "rows ! Suc 0 = [Num t0] @ replicate 0 (Txt []) @ [Num q0]"
    by blast
  then have r1: "rows ! Suc 0 = [Num (gmean [2]), Num (gmean [3])]"
    by (simp add: example_placed_geomeans)
  have "Suc 0 < length ?sets" by simp
  from rs [OF this] obtain t1 q1 where
    "get_geomean (?cs ! Suc 0) ''runtime'' = Inr t1" "get_geomean (?cs ! Suc 0) ''BB cost'' = Inr q1"
    "rows ! Suc (Suc 0) = [Num t1] @ replicate (Suc 0) (Txt []) @ [Num q1]"
    by blast
  then have r2: "rows ! Suc (Suc 0) = [Num (gmean [2]), Txt [], Num (gmean [3])]"
    by (simp add: example_placed_geomeans)
  have "length rows = Suc (Suc (Suc 0))" using l by simp
  then have "rows = [rows ! 0, rows ! Suc 0, rows ! Suc (Suc 0)]" by (rule list_of_three)
  also have "\<dots> = [[Txt ''BB cost'', Txt ''x 1'', Txt ''x 2''],
        [Num (gmean [2]), Num (gmean [3])],
        [Num (gmean [2]), Txt [], Num (gmean [3])]]"
    by (simp add: h r1 r2)
  finally show ?thesis using r by simp
qed

section \<open>The report of a sweep\<close>































section \<open>Cleaning up\<close>

text \<open>
  Claim C9, amended. \<open>silentremove\<close> returns normally when \<open>os.remove\<close> succeeds or
  fails with ENOENT, and raises the OSError again for any other errno. It is not what
  cleans up after a run: \<open>place_all\<close>, once all invocations have returned, calls
  \<open>shutil.rmtree('tmp')\<close>, and any error of that call, a missing \<open>tmp\<close> included, is
  raised to the caller.
\<close>

theorem cleanup_errors:
  "(\<forall>filename p w. os_remove env filename (world p) = (None, w) \<longrightarrow>
        silentremove env filename p = (None, p\<lparr>world := w\<rparr>))
   \<and> (\<forall>filename p w. os_remove env filename (world p) = (Some ENOENT, w) \<longrightarrow>
        silentremove env filename p = (None, p\<lparr>world := w\<rparr>))
   \<and> (\<forall>filename p w e. os_remove env filename (world p) = (Some e, w) \<and> e \<noteq> ENOENT \<longrightarrow>
        silentremove env filename p = (Some (OSError e), p\<lparr>world := w\<rparr>))
   \<and> (\<forall>options n c p c1 p1 w e.
        call_all_circuits env (build_command (architecture c) (circuit_file c) options) n c p
          = (None, c1, p1)
        \<and> rmtree env ''tmp'' (world p1) = (Some e, w) \<longrightarrow>
        place_all env options n c p = (Some (OSError e), c1, p1\<lparr>world := w\<rparr>))
   \<and> (\<forall>options n c p c1 p1 w.
        call_all_circuits env (build_command (architecture c) (circuit_file c) options) n c p
          = (None, c1, p1)
        \<and> rmtree env ''tmp'' (world p1) = (None, w) \<longrightarrow>
        place_all env options n c p = (None, c1, p1\<lparr>world := w\<rparr>))"
  by (simp add: silentremove_def place_all_def Let_def)

lemma example_no_seed_run:
  "call_all_circuits example_env cmd 0 c p =
     (None, c\<lparr>results := Some (init_results (circuits c) (metrics c) []), seeds := Some []\<rparr>,
      p\<lparr>rng := 1\<rparr>)"
  by (simp add: call_all_circuits_def init_run_def example_env_simps)

theorem cleanup_errors_witness:
  "silentremove example_env ''missing'' example_process = (None, example_process)
   \<and> silentremove example_env ''locked'' example_process = (Some (OSError 13), example_process)
   \<and> silentremove example_env ''tmp'' (example_process\<lparr>world := [''tmp'']\<rparr>) = (None, example_process)
   \<and> fst (place_all example_env [] 0 (PlaceCaller ''arch'' ''c'' ''a'') example_process)
       = Some (OSError ENOENT)
   \<and> fst (place_all example_env [] 0 (PlaceCaller ''arch'' ''c'' ''a'')
            (example_process\<lparr>world := [''tmp'']\<rparr>)) = None"
proof -
  note t = cleanup_errors [of example_env]
  have r1: "os_remove example_env ''missing'' (world example_process) = (Some ENOENT, [])"
    by (simp add: example_env_simps example_remove_def example_process_def)
  have r2: "os_remove example_env ''locked'' (world example_process) = (Some 13, []) \<and> 13 \<noteq> ENOENT"
    by (simp add: example_env_simps example_remove_def example_process_def ENOENT_def)
  have r3: "os_remove example_env ''tmp'' (world (example_process\<lparr>world := [''tmp'']\<rparr>)) = (None, [])"
    by (simp add: example_env_simps example_remove_def)
  let ?c = "PlaceCaller ''arch'' ''c'' ''a''"
  let ?cmd = "build_command (architecture ?c) (circuit_file ?c) []"
  let ?c1 = "?c\<lparr>results := Some (init_results (circuits ?c) (metrics ?c) []), seeds := Some []\<rparr>"
  have r4: "call_all_circuits example_env ?cmd 0 ?c example_process
        = (None, ?c1, example_process\<lparr>rng := 1\<rparr>)
      \<and> rmtree example_env ''tmp'' (world (example_process\<lparr>rng := 1\<rparr>)) = (Some ENOENT, [])"
    by (simp add: example_no_seed_run example_env_simps example_remove_def example_process_def)
  have r5: "call_all_circuits example_env ?cmd 0 ?c (example_process\<lparr>world := [''tmp'']\<rparr>)
        = (None, ?c1, example_process\<lparr>world := [''tmp''], rng := 1\<rparr>)
      \<and> rmtree example_env ''tmp'' (world (example_process\<lparr>world := [''tmp''], rng := 1\<rparr>)) = (None, [])"
    by (simp add: example_no_seed_run example_env_simps example_remove_def)
  have a: "silentremove example_env ''missing'' example_process = (None, example_process\<lparr>world := []\<rparr>)"
    using t [THEN conjunct2, THEN conjunct1, rule_format, OF r1] .
  have b: "silentremove example_env ''locked'' example_process
      = (Some (OSError 13), example_process\<lparr>world := []\<rparr>)"
    using t [THEN conjunct2, THEN conjunct2, THEN conjunct1, rule_format, OF r2] .
  have c: "silentremove example_env ''tmp'' (example_process\<lparr>world := [''tmp'']\<rparr>)
      = (None, example_process\<lparr>world := [''tmp''], world := []\<rparr>)"
    using t [THEN conjunct1, rule_format, OF r3] .
  have d: "place_all example_env [] 0 ?c example_process
      = (Some (OSError ENOENT), ?c1, example_process\<lparr>rng := 1, world := []\<rparr>)"
    using t [THEN conjunct2, THEN conjunct2, THEN conjunct2, THEN conjunct1, rule_format, OF r4] .
  have e: "place_all example_env [] 0 ?c (example_process\<lparr>world := [''tmp'']\<rparr>)
      = (None, ?c1, example_process\<lparr>world := [''tmp''], rng := 1, world := []\<rparr>)"
    using t [THEN conjunct2, THEN conjunct2, THEN conjunct2, THEN conjunct2, rule_format, OF r5] .
  show ?thesis
    by (simp add: a b c d e) (simp add: example_process_def)
qed

text \<open>
  The claim as stated fails: with no seed the tool is never run, and \<open>place_all\<close>
  raises the ENOENT error of \<open>rmtree\<close> when \<open>tmp\<close> does not exist, while it returns
  normally when \<open>tmp\<close> exists.
\<close>

theorem cleanup_absent_counterexample:
  "fst (place_all example_env [] 0 (PlaceCaller ''arch'' ''c'' ''a'') example_process)
     = Some (OSError ENOENT)
   \<and> fst (place_all example_env [] 0 (PlaceCaller ''arch'' ''c'' ''a'')
          (example_process\<lparr>world := [''tmp'']\<rparr>)) = None"
  by (simp add: place_all_def example_no_seed_run example_env_simps example_remove_def
      example_process_def Let_def)

end
